theory Spec2Isabelle
  imports Main "HOL-Library.Sublist" "HOL-Library.AList"
begin

section \<open>Data model\<close>

text \<open>
  The module \<^verbatim>\<open>iex_data.py\<close> is one class, \<^verbatim>\<open>API\<close>, whose methods fetch JSON
  over HTTP and reshape it into pandas tables. The parsed JSON is a tree. The keys of an
  object are distinct, as in the dict \<^verbatim>\<open>json.loads\<close> builds; the pairs are kept in
  insertion order. Numbers are the integers (fractions are floating point and are not
  distinguished here).
\<close>

datatype json =
    JNull
  | JBool bool
  | JNum int
  | JStr string
  | JArr "json list"
  | JObj "(string \<times> json) list"

text \<open>
  A cell of a table: a missing value, a JSON scalar or array kept as the server sent it,
  a decoded timestamp (milliseconds since 1970-01-01T00:00:00Z), or the missing
  timestamp.
\<close>

datatype cell = NaN | Val json | Timestamp int | NaT

datatype error =
    URLError
  | HTTPError nat
  | JSONDecodeError
  | KeyError string
  | TypeError
  | ValueError

text \<open>
  What the upstream service answers to a GET: no connection, a status outside 2xx, a
  body that is not JSON, or a JSON body.
\<close>

datatype reply = Refused | Status nat | Garbled | Body json

datatype index = RangeIndex | LabelIndex string "cell list"

text \<open>
  A \<^verbatim>\<open>pandas.DataFrame\<close>, row by row: the column labels in order, each row as an
  association list from label to cell (a label the row lacks reads as \<open>NaN\<close>), and the
  row index.
\<close>

record dataframe =
  columns :: "string list"
  rows :: "(string \<times> cell) list list"
  index :: index

text \<open>
  The effects of the module: the GET requests issued, in order, and the lines printed.
  An operation takes the world and returns its result, or the exception it raised,
  with the world as it left it.
\<close>

record world =
  requests :: "string list"
  stdout :: "string list"

type_synonym 'a io = "world \<Rightarrow> (error + 'a) \<times> world"

definition io_return :: "'a \<Rightarrow> 'a io" where
  "io_return x w = (Inr x, w)"

definition io_lift :: "error + 'a \<Rightarrow> 'a io" where
  "io_lift r w = (r, w)"

definition io_bind :: "'a io \<Rightarrow> ('a \<Rightarrow> 'b io) \<Rightarrow> 'b io" where
  "io_bind m f w = (case m w of (Inl e, w') \<Rightarrow> (Inl e, w') | (Inr x, w') \<Rightarrow> f x w')"

definition print :: "string \<Rightarrow> unit io" where
  "print s w = (Inr (), w\<lparr>stdout := stdout w @ [s]\<rparr>)"

section \<open>The pandas operations the module uses\<close>

definition cell_of :: "(string \<times> cell) list \<Rightarrow> string \<Rightarrow> cell" where
  "cell_of row c = (case map_of row c of None \<Rightarrow> NaN | Some v \<Rightarrow> v)"

definition add_columns :: "string list \<Rightarrow> string list \<Rightarrow> string list" where
  "add_columns cs ks = fold (\<lambda>k a. if k \<in> set a then a else a @ [k]) ks cs"

text \<open>
  \<^verbatim>\<open>nested_to_record\<close>: a nested object contributes its fields under dotted names;
  every other value is one cell.
\<close>

fun flatten :: "string \<Rightarrow> json \<Rightarrow> (string \<times> cell) list"
  and flatten_fields :: "string \<Rightarrow> (string \<times> json) list \<Rightarrow> (string \<times> cell) list" where
  "flatten key (JObj kvs) = flatten_fields (key @ ''.'') kvs"
| "flatten key JNull = [(key, Val JNull)]"
| "flatten key (JBool b) = [(key, Val (JBool b))]"
| "flatten key (JNum n) = [(key, Val (JNum n))]"
| "flatten key (JStr s) = [(key, Val (JStr s))]"
| "flatten key (JArr xs) = [(key, Val (JArr xs))]"
| "flatten_fields p [] = []"
| "flatten_fields p (kv # rest) = flatten (p @ fst kv) (snd kv) @ flatten_fields p rest"

fun is_object :: "json \<Rightarrow> bool" where
  "is_object (JObj kvs) = True"
| "is_object v = False"

fun record_of :: "json \<Rightarrow> (string \<times> cell) list" where
  "record_of (JObj kvs) = flatten_fields [] kvs"
| "record_of v = []"

definition frame_of_records :: "(string \<times> cell) list list \<Rightarrow> dataframe" where
  "frame_of_records rs =
     \<lparr>columns = add_columns [] (concat (map (map fst) rs)), rows = rs, index = RangeIndex\<rparr>"

text \<open>
  \<^verbatim>\<open>json_normalize(data)\<close>: an object is one row, an array of objects one row each
  (the empty array is the empty table, with no column); anything else is not a record
  and raises.
\<close>

fun json_normalize :: "json \<Rightarrow> error + dataframe" where
  "json_normalize (JObj kvs) = Inr (frame_of_records [record_of (JObj kvs)])"
| "json_normalize (JArr xs) =
     (if list_all is_object xs then Inr (frame_of_records (map record_of xs))
      else Inl TypeError)"
| "json_normalize v = Inl TypeError"

text \<open>\<^verbatim>\<open>data[nest]\<close> on the parsed JSON: only an object can be read by key.\<close>

fun subscript :: "json \<Rightarrow> string \<Rightarrow> error + json" where
  "subscript (JObj kvs) k =
     (case map_of kvs k of None \<Rightarrow> Inl (KeyError k) | Some v \<Rightarrow> Inr v)"
| "subscript v k = Inl TypeError"

text \<open>\<^verbatim>\<open>df[c]\<close>: the cells of a column, or \<^verbatim>\<open>KeyError\<close>.\<close>

definition get_column :: "string \<Rightarrow> dataframe \<Rightarrow> error + cell list" where
  "get_column c df =
     (if c \<in> set (columns df) then Inr (map (\<lambda>r. cell_of r c) (rows df))
      else Inl (KeyError c))"

definition and_then :: "error + 'a \<Rightarrow> ('a \<Rightarrow> error + 'b) \<Rightarrow> error + 'b" where
  "and_then r f = (case r of Inl e \<Rightarrow> Inl e | Inr x \<Rightarrow> f x)"

fun traverse :: "('a \<Rightarrow> error + 'b) \<Rightarrow> 'a list \<Rightarrow> error + 'b list" where
  "traverse f [] = Inr []"
| "traverse f (x # xs) =
     and_then (f x) (\<lambda>y. and_then (traverse f xs) (\<lambda>ys. Inr (y # ys)))"

text \<open>
  \<^verbatim>\<open>df[c] = values\<close>: a new label goes last, an old one keeps its place. The values
  are always one per row here (they come from a column of the same table).
\<close>

definition set_column :: "string \<Rightarrow> cell list \<Rightarrow> dataframe \<Rightarrow> dataframe" where
  "set_column c vs df =
     df\<lparr>columns := add_columns (columns df) [c],
        rows := map (\<lambda>(r, v). AList.update c v r) (zip (rows df) vs)\<rparr>"

text \<open>\<^verbatim>\<open>df[c] = scalar\<close>: the scalar in every row.\<close>

definition set_scalar :: "string \<Rightarrow> cell \<Rightarrow> dataframe \<Rightarrow> dataframe" where
  "set_scalar c v df = set_column c (replicate (length (rows df)) v) df"

text \<open>\<^verbatim>\<open>del df[c]\<close>.\<close>

definition del_column :: "string \<Rightarrow> dataframe \<Rightarrow> error + dataframe" where
  "del_column c df =
     (if c \<in> set (columns df)
      then Inr (df\<lparr>columns := removeAll c (columns df), rows := map (AList.delete c) (rows df)\<rparr>)
      else Inl (KeyError c))"

text \<open>\<^verbatim>\<open>df[[c1, ..., cn]]\<close>: the listed columns in the listed order.\<close>

definition select_columns :: "string list \<Rightarrow> dataframe \<Rightarrow> error + dataframe" where
  "select_columns cs df =
     (case filter (\<lambda>c. c \<notin> set (columns df)) cs of
        [] \<Rightarrow> Inr (df\<lparr>columns := cs, rows := map (\<lambda>r. map (\<lambda>c. (c, cell_of r c)) cs) (rows df)\<rparr>)
      | c # missing \<Rightarrow> Inl (KeyError c))"

text \<open>\<^verbatim>\<open>df.set_index([c], inplace=True)\<close>: the column leaves the table and labels the rows.\<close>

definition set_index :: "string \<Rightarrow> dataframe \<Rightarrow> error + dataframe" where
  "set_index c df =
     (if c \<in> set (columns df)
      then Inr \<lparr>columns = removeAll c (columns df), rows = map (AList.delete c) (rows df),
                index = LabelIndex c (map (\<lambda>r. cell_of r c) (rows df))\<rparr>
      else Inl (KeyError c))"

text \<open>
  \<^verbatim>\<open>a.append(b, ignore_index=True)\<close>: the rows of \<open>a\<close>, then those of \<open>b\<close>, numbered
  afresh. The labels are those of \<open>a\<close> followed by the new ones of \<open>b\<close>, in the order met.
  Every pandas release does so when \<open>a\<close> is the empty table or the labels of the two
  agree; when they differ, releases before 1.0 sort them instead.
\<close>

definition append_frame :: "dataframe \<Rightarrow> dataframe \<Rightarrow> dataframe" where
  "append_frame a b =
     \<lparr>columns = add_columns (columns a) (columns b), rows = rows a @ rows b, index = RangeIndex\<rparr>"

definition empty_frame :: dataframe where
  "empty_frame = \<lparr>columns = [], rows = [], index = RangeIndex\<rparr>"

text \<open>
  \<^verbatim>\<open>pd.to_datetime(series, unit='ms')\<close>, cell by cell: an integer is that many
  milliseconds since the epoch, within what a 64-bit count of nanoseconds holds; a
  missing value is the missing timestamp. Every other cell raises here (how the library
  reads a string that spells a number differs between its releases).
\<close>

fun to_datetime_ms :: "cell \<Rightarrow> error + cell" where
  "to_datetime_ms (Val (JNum n)) =
     (if - 9223372036854 \<le> n \<and> n \<le> 9223372036854 then Inr (Timestamp n) else Inl ValueError)"
| "to_datetime_ms (Val JNull) = Inr NaT"
| "to_datetime_ms NaN = Inr NaT"
| "to_datetime_ms NaT = Inr NaT"
| "to_datetime_ms (Timestamp t) = Inr (Timestamp t)"
| "to_datetime_ms c = Inl ValueError"

text \<open>\<^verbatim>\<open>df[c] = pd.to_datetime(df[c], unit='ms')\<close>.\<close>

definition decode_column :: "string \<Rightarrow> dataframe \<Rightarrow> error + dataframe" where
  "decode_column c df =
     and_then (get_column c df) (\<lambda>vs.
     and_then (traverse to_datetime_ms vs) (\<lambda>ts. Inr (set_column c ts df)))"

text \<open>
  The calendar reading of a timestamp: days since the epoch to year, month and day in
  the proleptic Gregorian calendar, and the time of day.
\<close>

record calendar =
  year :: int
  month :: int
  day :: int
  hour :: int
  minute :: int
  second :: int
  millisecond :: int

definition civil_from_days :: "int \<Rightarrow> int \<times> int \<times> int" where
  "civil_from_days z0 =
     (let z = z0 + 719468;
          era = z div 146097;
          doe = z - era * 146097;
          yoe = (doe - doe div 1460 + doe div 36524 - doe div 146096) div 365;
          doy = doe - (365 * yoe + yoe div 4 - yoe div 100);
          mp = (5 * doy + 2) div 153;
          d = doy - (153 * mp + 2) div 5 + 1;
          m = (if mp < 10 then mp + 3 else mp - 9);
          y = yoe + era * 400
      in (if m \<le> 2 then y + 1 else y, m, d))"

definition calendar_of :: "int \<Rightarrow> calendar" where
  "calendar_of ms =
     (let (y, m, d) = civil_from_days (ms div 86400000);
          r = ms mod 86400000
      in \<lparr>year = y, month = m, day = d, hour = r div 3600000,
          minute = r mod 3600000 div 60000, second = r mod 60000 div 1000,
          millisecond = r mod 1000\<rparr>)"

text \<open>\<^verbatim>\<open>sep.join(xs)\<close> and \<^verbatim>\<open>str(n)\<close> for an integer.\<close>

fun join :: "string \<Rightarrow> string list \<Rightarrow> string" where
  "join sep [] = []"
| "join sep [x] = x"
| "join sep (x # y # ys) = x @ sep @ join sep (y # ys)"

fun digits :: "nat \<Rightarrow> string" where
  "digits n =
     (if n < 10 then [char_of (48 + n)]
      else digits (n div 10) @ [char_of (48 + n mod 10)])"

definition str_int :: "int \<Rightarrow> string" where
  "str_int i = (if i < 0 then CHR ''-'' # digits (nat (- i)) else digits (nat i))"

section \<open>The class API\<close>

definition end_point_prefix :: string where
  "end_point_prefix = ''https://api.iextrading.com/1.0/''"

text \<open>
  \<^verbatim>\<open>urlopen(Request(url))\<close>, \<^verbatim>\<open>response.read()\<close> and \<^verbatim>\<open>json.loads\<close>: one GET,
  logged whether it succeeds or not. A refused connection, a status outside 2xx and a
  body that does not parse each raise.
\<close>

fun read_json :: "reply \<Rightarrow> error + json" where
  "read_json Refused = Inl URLError"
| "read_json (Status c) = Inl (HTTPError c)"
| "read_json Garbled = Inl JSONDecodeError"
| "read_json (Body data) = Inr data"

definition log_request :: "string \<Rightarrow> world \<Rightarrow> world" where
  "log_request url w = w\<lparr>requests := requests w @ [url]\<rparr>"

definition urlopen_json :: "(string \<Rightarrow> reply) \<Rightarrow> string \<Rightarrow> json io" where
  "urlopen_json server url w = (read_json (server url), log_request url w)"

text \<open>\<^verbatim>\<open>if nest:\<close> is false for \<^verbatim>\<open>None\<close> and for the empty string.\<close>

fun truthy :: "string option \<Rightarrow> bool" where
  "truthy None = False"
| "truthy (Some s) = (s \<noteq> [])"

definition normalize_reply :: "json \<Rightarrow> string option \<Rightarrow> error + dataframe" where
  "normalize_reply data nest =
     (if truthy nest then
        (case subscript data (the nest) of
           Inl e \<Rightarrow> Inl e
         | Inr nested \<Rightarrow> json_normalize nested)
      else json_normalize data)"

definition url_to_dataframe ::
  "(string \<Rightarrow> reply) \<Rightarrow> string \<Rightarrow> string option \<Rightarrow> dataframe io" where
  "url_to_dataframe server url nest =
     io_bind (urlopen_json server url) (\<lambda>data. io_lift (normalize_reply data nest))"

text \<open>
  \<^verbatim>\<open>set(valid_securities)\<close> is built inside the comprehension, once per requested
  symbol: with no requested symbol it is never built, and otherwise a cell that cannot
  be hashed (a list) raises \<^verbatim>\<open>TypeError\<close>.
\<close>

fun hashable :: "cell \<Rightarrow> bool" where
  "hashable (Val (JArr xs)) = False"
| "hashable (Val (JObj kvs)) = False"
| "hashable c = True"

definition comprehension :: "string list \<Rightarrow> cell list \<Rightarrow> error + string list" where
  "comprehension securities valid_securities =
     (if securities = [] then Inr []
      else if list_all hashable valid_securities
      then Inr (filter (\<lambda>x. Val (JStr x) \<in> set valid_securities) securities)
      else Inl TypeError)"

definition ref_data_url :: string where
  "ref_data_url = end_point_prefix @ ''ref-data/symbols''"

definition return_valid_securities :: "(string \<Rightarrow> reply) \<Rightarrow> string list \<Rightarrow> string list io" where
  "return_valid_securities server securities =
     io_bind (url_to_dataframe server ref_data_url None) (\<lambda>df.
       io_lift (case get_column ''symbol'' df of
                  Inl e \<Rightarrow> Inl e
                | Inr valid_securities \<Rightarrow> comprehension securities valid_securities))"

definition invalid_message :: string where
  "invalid_message = ''These stock(s) are invalid!''"

definition get_latest_quote_and_trade ::
  "(string \<Rightarrow> reply) \<Rightarrow> string list \<Rightarrow> dataframe option io" where
  "get_latest_quote_and_trade server securities =
     io_bind (return_valid_securities server securities) (\<lambda>securities.
       if securities \<noteq> [] then
         io_bind (url_to_dataframe server
                    (end_point_prefix @ ''tops?symbols='' @ join '','' securities) None) (\<lambda>df.
         io_bind (io_lift (decode_column ''lastSaleTime'' df)) (\<lambda>df.
         io_bind (io_lift (decode_column ''lastUpdated'' df)) (\<lambda>df.
         io_bind (io_lift (set_index ''symbol'' df)) (\<lambda>df.
         io_return (Some df)))))
       else io_bind (print invalid_message) (\<lambda>u. io_return None))"

definition get_latest_trade ::
  "(string \<Rightarrow> reply) \<Rightarrow> string list \<Rightarrow> dataframe option io" where
  "get_latest_trade server securities =
     io_bind (return_valid_securities server securities) (\<lambda>securities.
       if securities \<noteq> [] then
         io_bind (url_to_dataframe server
                    (end_point_prefix @ ''tops/last?symbols='' @ join '','' securities) None) (\<lambda>df.
         io_bind (io_lift (decode_column ''time'' df)) (\<lambda>df.
         io_bind (io_lift (set_index ''symbol'' df)) (\<lambda>df.
         io_return (Some df))))
       else io_bind (print invalid_message) (\<lambda>u. io_return None))"

text \<open>
  The loop of the four operations below: \<^verbatim>\<open>for symbol in securities:\<close> build that symbol's
  table and \<^verbatim>\<open>final_df = final_df.append(df, ignore_index=True)\<close>. The body differs
  between them and is a parameter; an exception in the body leaves the loop at once.
\<close>

fun append_each :: "(string \<Rightarrow> dataframe io) \<Rightarrow> string list \<Rightarrow> dataframe \<Rightarrow> dataframe io" where
  "append_each body [] final_df = io_return final_df"
| "append_each body (symbol # rest) final_df =
     io_bind (body symbol) (\<lambda>df. append_each body rest (append_frame final_df df))"

definition news_columns :: "string list" where
  "news_columns = [''symbol'', ''time'', ''headline'', ''summary'', ''source'', ''url'', ''related'']"

text \<open>
  The body of the loop of \<^verbatim>\<open>get_latest_news\<close>. \<^verbatim>\<open>pd.to_datetime\<close> without a unit
  parses calendar text; the parser is the library's and is a parameter here, applied
  cell by cell.
\<close>

definition news_frame ::
  "(string \<Rightarrow> reply) \<Rightarrow> (cell \<Rightarrow> error + cell) \<Rightarrow> int \<Rightarrow> string \<Rightarrow> dataframe io" where
  "news_frame server to_datetime count symbol =
     io_bind (url_to_dataframe server
                (end_point_prefix @ ''stock/'' @ symbol @ ''/news/last/'' @ str_int count) None) (\<lambda>df.
     io_lift
       (and_then (get_column ''datetime'' df) (\<lambda>vs.
        and_then (traverse to_datetime vs) (\<lambda>ts.
        and_then (del_column ''datetime'' (set_column ''time'' ts df)) (\<lambda>df.
        select_columns news_columns (set_scalar ''symbol'' (Val (JStr symbol)) df))))))"

definition get_latest_news ::
  "(string \<Rightarrow> reply) \<Rightarrow> (cell \<Rightarrow> error + cell) \<Rightarrow> string list \<Rightarrow> int \<Rightarrow> dataframe option io" where
  "get_latest_news server to_datetime securities count =
     io_bind (return_valid_securities server securities) (\<lambda>securities.
       if securities \<noteq> [] then
         io_bind (append_each (news_frame server to_datetime count) securities empty_frame) (\<lambda>final_df.
         io_return (Some final_df))
       else io_bind (print invalid_message) (\<lambda>u. io_return None))"

definition financials_frame :: "(string \<Rightarrow> reply) \<Rightarrow> string \<Rightarrow> dataframe io" where
  "financials_frame server symbol =
     io_bind (url_to_dataframe server
                (end_point_prefix @ ''stock/'' @ symbol @ ''/financials'') (Some ''financials'')) (\<lambda>df.
     io_return (set_scalar ''symbol'' (Val (JStr symbol)) df))"

definition get_financials :: "(string \<Rightarrow> reply) \<Rightarrow> string list \<Rightarrow> dataframe option io" where
  "get_financials server securities =
     io_bind (return_valid_securities server securities) (\<lambda>securities.
       if securities \<noteq> [] then
         io_bind (append_each (financials_frame server) securities empty_frame) (\<lambda>final_df.
         io_return (Some final_df))
       else io_bind (print invalid_message) (\<lambda>u. io_return None))"

definition earnings_frame :: "(string \<Rightarrow> reply) \<Rightarrow> string \<Rightarrow> dataframe io" where
  "earnings_frame server symbol =
     io_bind (url_to_dataframe server
                (end_point_prefix @ ''stock/'' @ symbol @ ''/earnings'') (Some ''earnings'')) (\<lambda>df.
     io_return (set_scalar ''symbol'' (Val (JStr symbol)) df))"

definition get_earnings :: "(string \<Rightarrow> reply) \<Rightarrow> string list \<Rightarrow> dataframe option io" where
  "get_earnings server securities =
     io_bind (return_valid_securities server securities) (\<lambda>securities.
       if securities \<noteq> [] then
         io_bind (append_each (earnings_frame server) securities empty_frame) (\<lambda>final_df.
         io_return (Some final_df))
       else io_bind (print invalid_message) (\<lambda>u. io_return None))"

definition bars_frame :: "(string \<Rightarrow> reply) \<Rightarrow> string \<Rightarrow> string \<Rightarrow> dataframe io" where
  "bars_frame server bucket symbol =
     io_bind (url_to_dataframe server
                (end_point_prefix @ ''stock/'' @ symbol @ ''/chart/'' @ bucket) None) (\<lambda>df.
     io_return (set_scalar ''symbol'' (Val (JStr symbol)) df))"

definition get_trade_bars_data ::
  "(string \<Rightarrow> reply) \<Rightarrow> string list \<Rightarrow> string \<Rightarrow> dataframe option io" where
  "get_trade_bars_data server securities bucket =
     io_bind (return_valid_securities server securities) (\<lambda>securities.
       if securities \<noteq> [] then
         io_bind (append_each (bars_frame server bucket) securities empty_frame) (\<lambda>final_df.
         io_return (Some final_df))
       else io_bind (print invalid_message) (\<lambda>u. io_return None))"

section \<open>Notions the properties are stated with\<close>

subsection \<open>The operations apart from the log\<close>

text \<open>
  The reply of the server depends on the address only, so what a GET of \<open>url\<close> yields
  as a table, and what the validation yields, are functions of the server; the
  operations add the request to the log (lemmas \<open>url_to_dataframe_run\<close> and
  \<open>return_valid_securities_run\<close> below).
\<close>

definition fetch :: "(string \<Rightarrow> reply) \<Rightarrow> string \<Rightarrow> string option \<Rightarrow> error + dataframe" where
  "fetch server url nest = and_then (read_json (server url)) (\<lambda>data. normalize_reply data nest)"

definition validated :: "(string \<Rightarrow> reply) \<Rightarrow> string list \<Rightarrow> error + string list" where
  "validated server securities =
     and_then (fetch server ref_data_url None) (\<lambda>df.
     and_then (get_column ''symbol'' df) (\<lambda>valid_securities.
     comprehension securities valid_securities))"

text \<open>
  The addresses the operations build.
\<close>

definition tops_url :: "string list \<Rightarrow> string" where
  "tops_url securities = end_point_prefix @ ''tops?symbols='' @ join '','' securities"

definition last_url :: "string list \<Rightarrow> string" where
  "last_url securities = end_point_prefix @ ''tops/last?symbols='' @ join '','' securities"

definition news_url :: "int \<Rightarrow> string \<Rightarrow> string" where
  "news_url count symbol = end_point_prefix @ ''stock/'' @ symbol @ ''/news/last/'' @ str_int count"

definition financials_url :: "string \<Rightarrow> string" where
  "financials_url symbol = end_point_prefix @ ''stock/'' @ symbol @ ''/financials''"

definition earnings_url :: "string \<Rightarrow> string" where
  "earnings_url symbol = end_point_prefix @ ''stock/'' @ symbol @ ''/earnings''"

definition chart_url :: "string \<Rightarrow> string \<Rightarrow> string" where
  "chart_url bucket symbol = end_point_prefix @ ''stock/'' @ symbol @ ''/chart/'' @ bucket"

text \<open>
  The table each operation builds from a reply: for the two batched operations from the
  one reply for all valid symbols, for the four others from the reply for one symbol
  (the bodies of their loops, lemmas \<open>news_frame_logged\<close> to \<open>bars_frame_logged\<close>).
  \<open>tag\<close> is \<^verbatim>\<open>df['symbol'] = symbol\<close>.
\<close>

definition tag :: "string \<Rightarrow> dataframe \<Rightarrow> dataframe" where
  "tag symbol df = set_scalar ''symbol'' (Val (JStr symbol)) df"

definition quote_table :: "(string \<Rightarrow> reply) \<Rightarrow> string list \<Rightarrow> error + dataframe" where
  "quote_table server securities =
     and_then (fetch server (tops_url securities) None) (\<lambda>df.
     and_then (decode_column ''lastSaleTime'' df) (\<lambda>df.
     and_then (decode_column ''lastUpdated'' df) (\<lambda>df.
     set_index ''symbol'' df)))"

definition trade_table :: "(string \<Rightarrow> reply) \<Rightarrow> string list \<Rightarrow> error + dataframe" where
  "trade_table server securities =
     and_then (fetch server (last_url securities) None) (\<lambda>df.
     and_then (decode_column ''time'' df) (\<lambda>df.
     set_index ''symbol'' df))"

definition shape_news :: "(cell \<Rightarrow> error + cell) \<Rightarrow> string \<Rightarrow> dataframe \<Rightarrow> error + dataframe" where
  "shape_news to_datetime symbol df =
     and_then (get_column ''datetime'' df) (\<lambda>vs.
     and_then (traverse to_datetime vs) (\<lambda>ts.
     and_then (del_column ''datetime'' (set_column ''time'' ts df)) (\<lambda>df.
     select_columns news_columns (tag symbol df))))"

definition news_table ::
  "(string \<Rightarrow> reply) \<Rightarrow> (cell \<Rightarrow> error + cell) \<Rightarrow> int \<Rightarrow> string \<Rightarrow> error + dataframe" where
  "news_table server to_datetime count symbol =
     and_then (fetch server (news_url count symbol) None) (shape_news to_datetime symbol)"

definition financials_table :: "(string \<Rightarrow> reply) \<Rightarrow> string \<Rightarrow> error + dataframe" where
  "financials_table server symbol =
     and_then (fetch server (financials_url symbol) (Some ''financials'')) (\<lambda>df. Inr (tag symbol df))"

definition earnings_table :: "(string \<Rightarrow> reply) \<Rightarrow> string \<Rightarrow> error + dataframe" where
  "earnings_table server symbol =
     and_then (fetch server (earnings_url symbol) (Some ''earnings'')) (\<lambda>df. Inr (tag symbol df))"

definition bars_table :: "(string \<Rightarrow> reply) \<Rightarrow> string \<Rightarrow> string \<Rightarrow> error + dataframe" where
  "bars_table server bucket symbol =
     and_then (fetch server (chart_url bucket symbol) None) (\<lambda>df. Inr (tag symbol df))"

text \<open>
  What the four looping operations share, with the body of the loop as a parameter
  (lemmas \<open>get_latest_news_loop\<close> to \<open>get_trade_bars_data_loop\<close>).
\<close>

definition for_valid_securities ::
  "(string \<Rightarrow> reply) \<Rightarrow> (string \<Rightarrow> dataframe io) \<Rightarrow> string list \<Rightarrow> dataframe option io" where
  "for_valid_securities server body securities =
     io_bind (return_valid_securities server securities) (\<lambda>securities.
       if securities \<noteq> [] then
         io_bind (append_each body securities empty_frame) (\<lambda>final_df.
         io_return (Some final_df))
       else io_bind (print invalid_message) (\<lambda>u. io_return None))"

text \<open>
  A loop body that yields \<open>table symbol\<close> and logs one request, to \<open>url symbol\<close>.
\<close>

definition logged :: "(string \<Rightarrow> dataframe io) \<Rightarrow> (string \<Rightarrow> error + dataframe) \<Rightarrow> (string \<Rightarrow> string) \<Rightarrow> bool" where
  "logged body table url = (\<forall>symbol w. body symbol w = (table symbol, log_request (url symbol) w))"

text \<open>The loop apart from the log: the tables appended until the first exception.\<close>

fun collect :: "(string \<Rightarrow> error + dataframe) \<Rightarrow> string list \<Rightarrow> dataframe \<Rightarrow> error + dataframe" where
  "collect table [] final_df = Inr final_df"
| "collect table (symbol # rest) final_df =
     and_then (table symbol) (\<lambda>df. collect table rest (append_frame final_df df))"

text \<open>The symbols the loop reaches: all of them, or those up to the first exception.\<close>

fun reached :: "(string \<Rightarrow> error + dataframe) \<Rightarrow> string list \<Rightarrow> string list" where
  "reached table [] = []"
| "reached table (symbol # rest) =
     symbol # (case table symbol of Inl e \<Rightarrow> [] | Inr df \<Rightarrow> reached table rest)"

subsection \<open>The reference list\<close>

text \<open>
  \<^verbatim>\<open>json.loads\<close> builds dicts, whose keys are distinct at every level.
\<close>

fun dict_like :: "json \<Rightarrow> bool" and dict_like_fields :: "(string \<times> json) list \<Rightarrow> bool" where
  "dict_like (JObj kvs) = (distinct (map fst kvs) \<and> dict_like_fields kvs)"
| "dict_like (JArr xs) = list_all dict_like xs"
| "dict_like v = True"
| "dict_like_fields [] = True"
| "dict_like_fields (kv # rest) = (dict_like (snd kv) \<and> dict_like_fields rest)"

fun dict_reply :: "reply \<Rightarrow> bool" where
  "dict_reply (Body data) = dict_like data"
| "dict_reply r = True"

text \<open>
  The reference list the server provides: the entries of the reply to
  \<^verbatim>\<open>ref-data/symbols\<close>; a symbol is listed when an entry carries it under the key
  \<^verbatim>\<open>symbol\<close>.
\<close>

fun lists_symbol :: "string \<Rightarrow> json \<Rightarrow> bool" where
  "lists_symbol s (JObj kvs) = (map_of kvs ''symbol'' = Some (JStr s))"
| "lists_symbol s v = False"

fun entries :: "reply \<Rightarrow> json list" where
  "entries (Body (JArr xs)) = xs"
| "entries (Body (JObj kvs)) = [JObj kvs]"
| "entries r = []"

definition listed :: "(string \<Rightarrow> reply) \<Rightarrow> string \<Rightarrow> bool" where
  "listed server s = list_ex (lists_symbol s) (entries (server ref_data_url))"

subsection \<open>Results\<close>

text \<open>The world after the validation found no valid symbol and the diagnostic was printed.\<close>

definition diagnosed :: "world \<Rightarrow> world" where
  "diagnosed w =
     \<lparr>requests = requests w @ [ref_data_url], stdout = stdout w @ [invalid_message]\<rparr>"

text \<open>The rows a symbol's table contributes to the result.\<close>

definition contribution :: "error + dataframe \<Rightarrow> (string \<times> cell) list list" where
  "contribution t = (case t of Inl e \<Rightarrow> [] | Inr df \<Rightarrow> rows df)"

text \<open>
  The rows of a result are those the valid symbols' tables contribute, symbol by symbol
  in the caller's order; each row a symbol contributes carries that symbol; so each row
  of the result carries a symbol that was requested and is listed.
\<close>

definition symbol_rows ::
  "(string \<Rightarrow> reply) \<Rightarrow> string list \<Rightarrow> (string \<Rightarrow> error + dataframe) \<Rightarrow> dataframe \<Rightarrow> bool" where
  "symbol_rows server securities table out =
     (rows out = concat (map (\<lambda>s. contribution (table s)) (filter (listed server) securities))
      \<and> (\<forall>s \<in> set securities. \<forall>r \<in> set (contribution (table s)).
            cell_of r ''symbol'' = Val (JStr s))
      \<and> (\<forall>r \<in> set (rows out). \<exists>s \<in> set securities.
            listed server s \<and> cell_of r ''symbol'' = Val (JStr s)))"

text \<open>
  What an operation does after the validation, as a plan: the addresses it fetches, in
  order, each with the table built from the reply or the exception raised on the way.
  The two batched operations have one step; the four others one step per valid symbol.
\<close>

definition per_symbol ::
  "(string \<Rightarrow> string) \<Rightarrow> (string \<Rightarrow> error + dataframe) \<Rightarrow> string list
     \<Rightarrow> (string \<times> (error + dataframe)) list" where
  "per_symbol url table valid = map (\<lambda>s. (url s, table s)) valid"

text \<open>
  An operation handles nothing but the empty validation result: it returns no table
  exactly when the validation returned the empty list; an exception of the validation is
  its result, after that one request; and the first step of the plan that raises ends
  the operation with that exception, each address up to it having been requested once.
\<close>

definition raises_through ::
  "(string \<Rightarrow> reply) \<Rightarrow> string list \<Rightarrow> (string list \<Rightarrow> (string \<times> (error + dataframe)) list)
     \<Rightarrow> dataframe option io \<Rightarrow> bool" where
  "raises_through server securities plan operation =
     (\<forall>w. (fst (operation w) = Inr None) = (validated server securities = Inr [])
        \<and> (\<forall>e. validated server securities = Inl e \<longrightarrow>
              operation w = (Inl e, log_request ref_data_url w))
        \<and> (\<forall>valid pre u e post.
              validated server securities = Inr valid \<and> valid \<noteq> []
              \<and> plan valid = pre @ (u, Inl e) # post
              \<and> (\<forall>p \<in> set pre. \<exists>df. snd p = Inr df) \<longrightarrow>
              operation w =
                (Inl e, \<lparr>requests = requests w @ ref_data_url # map fst pre @ [u],
                         stdout = stdout w\<rparr>)))"

subsection \<open>Concrete worlds and servers\<close>

text \<open>
  A fresh world; a server that knows the reference list only; one whose reference list
  is empty; and one that answers every operation for the symbol AAPL and with status 404
  otherwise. \<open>fixed_clock\<close> stands for the text parser of \<^verbatim>\<open>pd.to_datetime\<close> on the one
  text the last server sends.
\<close>

definition start :: world where
  "start = \<lparr>requests = [], stdout = []\<rparr>"

definition reference_reply :: reply where
  "reference_reply =
     Body (JArr [JObj [(''symbol'', JStr ''AAPL''), (''name'', JStr ''Apple Inc.'')],
                 JObj [(''symbol'', JStr ''IBM''), (''isEnabled'', JBool True)]])"

definition reference_only :: "string \<Rightarrow> reply" where
  "reference_only url = (if url = ref_data_url then reference_reply else Refused)"

definition empty_reference :: "string \<Rightarrow> reply" where
  "empty_reference url = (if url = ref_data_url then Body (JArr []) else Refused)"

definition market :: "string \<Rightarrow> reply" where
  "market url =
     (if url = ref_data_url then reference_reply
      else if url = tops_url [''AAPL''] then
        Body (JArr [JObj [(''symbol'', JStr ''AAPL''), (''lastSalePrice'', JNum 149),
                          (''lastSaleTime'', JNum 1500000000000),
                          (''lastUpdated'', JNum 1500000000123)]])
      else if url = last_url [''AAPL''] then
        Body (JArr [JObj [(''symbol'', JStr ''AAPL''), (''price'', JNum 149),
                          (''time'', JNum 1500000000000)]])
      else if url = news_url 1 ''AAPL'' then
        Body (JArr [JObj [(''datetime'', JStr ''2017-07-14T02:40:00-04:00''),
                          (''headline'', JStr ''Results''), (''source'', JStr ''Wire''),
                          (''url'', JStr ''https://example.org/1''), (''summary'', JStr ''Up''),
                          (''related'', JStr ''AAPL,IBM'')]])
      else if url = financials_url ''AAPL'' then
        Body (JObj [(''symbol'', JStr ''AAPL''),
                    (''financials'', JArr [JObj [(''reportDate'', JStr ''2017-03-31''), (''netIncome'', JNum 11029)],
                                           JObj [(''reportDate'', JStr ''2016-12-31''), (''netIncome'', JNum 17891)]])])
      else if url = earnings_url ''AAPL'' then
        Body (JObj [(''symbol'', JStr ''AAPL''),
                    (''earnings'', JArr [JObj [(''fiscalPeriod'', JStr ''Q2 2017''), (''actualEPS'', JNum 2)]])])
      else if url = chart_url ''1y'' ''AAPL'' then
        Body (JArr [JObj [(''date'', JNum 1500000000000), (''close'', JNum 149)],
                    JObj [(''date'', JNum 1500086400000), (''close'', JNum 150)]])
      else Status 404)"


section \<open>The symbol validator\<close>

lemma url_to_dataframe_run:
  "url_to_dataframe server url nest w = (fetch server url nest, log_request url w)"
  by (simp add: url_to_dataframe_def io_bind_def urlopen_json_def io_lift_def fetch_def
      and_then_def split: sum.splits)

lemma return_valid_securities_run:
  "return_valid_securities server securities w =
     (validated server securities, log_request ref_data_url w)"
  by (simp add: return_valid_securities_def io_bind_def url_to_dataframe_run io_lift_def
      validated_def and_then_def split: sum.splits)

lemma flatten_keys:
  "(k, c) \<in> set (flatten key v) \<Longrightarrow>
     (k = key \<and> c = Val v \<and> \<not> is_object v) \<or> (\<exists>t. k = key @ ''.'' @ t)"
  "(k, c) \<in> set (flatten_fields p kvs) \<Longrightarrow>
     (\<exists>kv \<in> set kvs. (k = p @ fst kv \<and> c = Val (snd kv) \<and> \<not> is_object (snd kv))
        \<or> (\<exists>t. k = p @ fst kv @ ''.'' @ t))"
  by (induction key v and p kvs rule: flatten_flatten_fields.induct) (auto; force)+

lemma symbol_not_dotted: "''symbol'' \<noteq> k @ ''.'' @ t"
proof
  assume a: "''symbol'' = k @ ''.'' @ t"
  have "CHR ''.'' \<in> set (k @ ''.'' @ t)" by simp
  then have "CHR ''.'' \<in> set ''symbol''" unfolding a[symmetric] .
  then show False by simp
qed

lemma symbol_of_fields:
  assumes "map_of (flatten_fields [] kvs) ''symbol'' = Some c"
  shows "\<exists>v. (''symbol'', v) \<in> set kvs \<and> c = Val v"
proof -
  from assms have "(''symbol'', c) \<in> set (flatten_fields [] kvs)" by (rule map_of_SomeD)
  from flatten_keys(2)[OF this] obtain kv where kv: "kv \<in> set kvs"
    and d: "(''symbol'' = [] @ fst kv \<and> c = Val (snd kv) \<and> \<not> is_object (snd kv))
        \<or> (\<exists>t. ''symbol'' = [] @ fst kv @ ''.'' @ t)" by blast
  from d symbol_not_dotted have "''symbol'' = fst kv \<and> c = Val (snd kv)" by auto
  with kv show ?thesis by (cases kv) auto
qed

lemma flatten_other_key:
  assumes "k \<noteq> ''symbol''"
  shows "map_of (flatten k v) ''symbol'' = None"
proof (rule ccontr)
  assume "map_of (flatten k v) ''symbol'' \<noteq> None"
  then obtain c where "map_of (flatten k v) ''symbol'' = Some c" by auto
  then have "(''symbol'', c) \<in> set (flatten k v)" by (rule map_of_SomeD)
  from flatten_keys(1)[OF this] assms symbol_not_dotted show False by auto
qed

lemma fields_of_symbol:
  "map_of kvs ''symbol'' = Some (JStr s) \<Longrightarrow>
     map_of (flatten_fields [] kvs) ''symbol'' = Some (Val (JStr s))"
proof (induction kvs)
  case Nil
  then show ?case by simp
next
  case (Cons kv kvs)
  show ?case
  proof (cases "fst kv = ''symbol''")
    case True
    with Cons.prems have "snd kv = JStr s" by (cases kv) auto
    with True show ?thesis by (simp add: map_add_def)
  next
    case False
    with Cons.prems have "map_of kvs ''symbol'' = Some (JStr s)" by (cases kv) auto
    then have "map_of (flatten_fields [] kvs) ''symbol'' = Some (Val (JStr s))" by (rule Cons.IH)
    with False show ?thesis by (simp add: map_add_def flatten_other_key)
  qed
qed

lemma record_lists_symbol:
  "lists_symbol s x \<Longrightarrow> cell_of (record_of x) ''symbol'' = Val (JStr s)"
  by (cases x) (simp_all add: cell_of_def fields_of_symbol)

lemma lists_symbol_record:
  assumes "cell_of (record_of x) ''symbol'' = Val (JStr s)" "dict_like x"
  shows "lists_symbol s x"
proof (cases x)
  case (JObj kvs)
  with assms(1) have "map_of (flatten_fields [] kvs) ''symbol'' = Some (Val (JStr s))"
    by (simp add: cell_of_def split: option.splits)
  from symbol_of_fields[OF this] have "(''symbol'', JStr s) \<in> set kvs" by auto
  moreover from assms(2) JObj have "distinct (map fst kvs)" by simp
  ultimately show ?thesis using JObj by simp
qed (use assms in \<open>simp_all add: cell_of_def\<close>)

lemma fetch_rows:
  assumes "fetch server url None = Inr df"
  shows "rows df = map record_of (entries (server url)) \<and> list_all is_object (entries (server url))"
proof (cases "server url")
  case (Body data)
  with assms have n: "json_normalize data = Inr df"
    by (simp add: fetch_def and_then_def normalize_reply_def)
  then show ?thesis using Body
    by (cases data) (auto simp: frame_of_records_def split: if_splits)
qed (use assms in \<open>simp_all add: fetch_def and_then_def\<close>)

lemma dict_reply_entries: "dict_reply r \<Longrightarrow> x \<in> set (entries r) \<Longrightarrow> dict_like x"
  by (induction r rule: entries.induct) (auto simp: list_all_iff)

lemma column_listed:
  assumes "fetch server ref_data_url None = Inr df" "dict_reply (server ref_data_url)"
  shows "(Val (JStr s) \<in> set (map (\<lambda>r. cell_of r ''symbol'') (rows df))) = listed server s"
proof -
  from fetch_rows[OF assms(1)]
  have r: "rows df = map record_of (entries (server ref_data_url))" by simp
  show ?thesis
  proof
    assume "Val (JStr s) \<in> set (map (\<lambda>r. cell_of r ''symbol'') (rows df))"
    with r obtain x where x: "x \<in> set (entries (server ref_data_url))"
      and c: "cell_of (record_of x) ''symbol'' = Val (JStr s)" by auto
    from dict_reply_entries[OF assms(2) x] c have "lists_symbol s x"
      by (simp add: lists_symbol_record)
    with x show "listed server s" by (auto simp: listed_def list_ex_iff)
  next
    assume "listed server s"
    then obtain x where x: "x \<in> set (entries (server ref_data_url))" and l: "lists_symbol s x"
      by (auto simp: listed_def list_ex_iff)
    from record_lists_symbol[OF l] x r
    show "Val (JStr s) \<in> set (map (\<lambda>r. cell_of r ''symbol'') (rows df))" by force
  qed
qed

lemma validated_filter:
  assumes "validated server securities = Inr valid" "dict_reply (server ref_data_url)"
  shows "valid = filter (listed server) securities"
proof -
  from assms(1) obtain df vs where f: "fetch server ref_data_url None = Inr df"
    and g: "get_column ''symbol'' df = Inr vs" and c: "comprehension securities vs = Inr valid"
    by (auto simp: validated_def and_then_def split: sum.splits)
  from g have vs: "vs = map (\<lambda>r. cell_of r ''symbol'') (rows df)"
    by (simp add: get_column_def split: if_splits)
  from c have "valid = filter (\<lambda>x. Val (JStr x) \<in> set vs) securities"
    by (auto simp: comprehension_def split: if_splits)
  also have "\<dots> = filter (listed server) securities"
    using column_listed[OF f assms(2)] vs by simp
  finally show ?thesis .
qed

lemma count_list_filter:
  "count_list (filter P xs) x = (if P x then count_list xs x else 0)"
  by (induction xs) auto

text \<open>
  Claim C1. Whatever the input list, the list \<^verbatim>\<open>return_valid_securities\<close> returns is a
  subsequence of the input (a subset, in the caller's order), and every symbol in it is
  listed in the reference list the server provided.
\<close>

theorem return_valid_securities_subset:
  assumes "return_valid_securities server securities w = (Inr valid, w')"
    and "dict_reply (server ref_data_url)"
  shows "subseq valid securities \<and> set valid \<subseteq> set securities
           \<and> (\<forall>x \<in> set valid. listed server x)"
proof -
  from assms(1) have "validated server securities = Inr valid"
    by (simp add: return_valid_securities_run)
  from validated_filter[OF this assms(2)] show ?thesis by auto
qed

lemma reference_only_validated:
  "return_valid_securities reference_only [''AAPL'', ''MSFT''] start
     = (Inr [''AAPL''], \<lparr>requests = [ref_data_url], stdout = []\<rparr>)"
  by (simp add: return_valid_securities_run validated_def fetch_def reference_only_def
      reference_reply_def and_then_def normalize_reply_def frame_of_records_def
      add_columns_def get_column_def comprehension_def cell_of_def log_request_def start_def)

lemma reference_only_dict: "dict_reply (reference_only ref_data_url)"
  by (simp add: reference_only_def reference_reply_def)

theorem return_valid_securities_subset_witness:
  "subseq [''AAPL''] [''AAPL'', ''MSFT''] \<and> set [''AAPL''] \<subseteq> set [''AAPL'', ''MSFT'']
     \<and> listed reference_only ''AAPL''"
  using return_valid_securities_subset[OF reference_only_validated reference_only_dict]
  by simp

text \<open>
  Claim C9. \<^verbatim>\<open>return_valid_securities\<close> is exactly the membership filter of its input:
  the result is the input with the unlisted symbols removed, so a listed symbol occurs
  in the result as many times as in the input, and an unlisted one not at all.
\<close>

theorem return_valid_securities_filter:
  assumes "return_valid_securities server securities w = (Inr valid, w')"
    and "dict_reply (server ref_data_url)"
  shows "valid = filter (listed server) securities
           \<and> (\<forall>x. count_list valid x = (if listed server x then count_list securities x else 0))"
proof -
  from assms(1) have "validated server securities = Inr valid"
    by (simp add: return_valid_securities_run)
  from validated_filter[OF this assms(2)] show ?thesis by (simp add: count_list_filter)
qed

lemma reference_only_duplicates:
  "return_valid_securities reference_only [''IBM'', ''MSFT'', ''IBM'', ''AAPL''] start
     = (Inr [''IBM'', ''IBM'', ''AAPL''], \<lparr>requests = [ref_data_url], stdout = []\<rparr>)"
  by (simp add: return_valid_securities_run validated_def fetch_def reference_only_def
      reference_reply_def and_then_def normalize_reply_def frame_of_records_def
      add_columns_def get_column_def comprehension_def cell_of_def log_request_def start_def)

theorem return_valid_securities_filter_witness:
  "[''IBM'', ''IBM'', ''AAPL''] = filter (listed reference_only) [''IBM'', ''MSFT'', ''IBM'', ''AAPL'']
     \<and> count_list [''IBM'', ''IBM'', ''AAPL''] ''IBM'' = 2
     \<and> count_list [''IBM'', ''MSFT'', ''IBM'', ''AAPL''] ''IBM'' = 2"
  using return_valid_securities_filter[OF reference_only_duplicates reference_only_dict]
  by (simp add: listed_def reference_only_def reference_reply_def)

text \<open>
  Claim C10. Every invocation of \<^verbatim>\<open>return_valid_securities\<close>, the empty input
  included, issues exactly one GET, of the reference list, and prints nothing; a second
  invocation issues it again (nothing is remembered); and when that fetch fails, the
  failure is the result, also for the empty input.
\<close>

theorem return_valid_securities_fetches_once:
  "requests (snd (return_valid_securities server securities w)) = requests w @ [ref_data_url]
   \<and> stdout (snd (return_valid_securities server securities w)) = stdout w
   \<and> requests (snd (return_valid_securities server again
                      (snd (return_valid_securities server securities w))))
       = requests w @ [ref_data_url, ref_data_url]
   \<and> (\<forall>e. fetch server ref_data_url None = Inl e \<longrightarrow>
         return_valid_securities server securities w = (Inl e, log_request ref_data_url w)
         \<and> return_valid_securities server [] w = (Inl e, log_request ref_data_url w))"
  by (simp add: return_valid_securities_run log_request_def validated_def and_then_def)

theorem return_valid_securities_fetches_once_witness:
  "fetch (\<lambda>url. Refused) ref_data_url None = Inl URLError
   \<and> return_valid_securities (\<lambda>url. Refused) [] start
       = (Inl URLError, \<lparr>requests = [ref_data_url], stdout = []\<rparr>)"
  using return_valid_securities_fetches_once[of "\<lambda>url. Refused" "[]" start "[]"]
  by (simp add: fetch_def and_then_def log_request_def start_def)

section \<open>The operations\<close>

lemma get_latest_news_loop:
  "get_latest_news server to_datetime securities count =
     for_valid_securities server (news_frame server to_datetime count) securities"
  by (simp add: get_latest_news_def for_valid_securities_def)

lemma get_financials_loop:
  "get_financials server securities =
     for_valid_securities server (financials_frame server) securities"
  by (simp add: get_financials_def for_valid_securities_def)

lemma get_earnings_loop:
  "get_earnings server securities =
     for_valid_securities server (earnings_frame server) securities"
  by (simp add: get_earnings_def for_valid_securities_def)

lemma get_trade_bars_data_loop:
  "get_trade_bars_data server securities bucket =
     for_valid_securities server (bars_frame server bucket) securities"
  by (simp add: get_trade_bars_data_def for_valid_securities_def)

lemma news_frame_logged:
  "logged (news_frame server to_datetime count) (news_table server to_datetime count) (news_url count)"
  by (simp add: logged_def news_frame_def io_bind_def url_to_dataframe_run io_lift_def
      news_table_def news_url_def shape_news_def tag_def and_then_def split: sum.splits)

lemma financials_frame_logged:
  "logged (financials_frame server) (financials_table server) financials_url"
  by (simp add: logged_def financials_frame_def io_bind_def url_to_dataframe_run io_return_def
      financials_table_def financials_url_def tag_def and_then_def split: sum.splits)

lemma earnings_frame_logged:
  "logged (earnings_frame server) (earnings_table server) earnings_url"
  by (simp add: logged_def earnings_frame_def io_bind_def url_to_dataframe_run io_return_def
      earnings_table_def earnings_url_def tag_def and_then_def split: sum.splits)

lemma bars_frame_logged:
  "logged (bars_frame server bucket) (bars_table server bucket) (chart_url bucket)"
  by (simp add: logged_def bars_frame_def io_bind_def url_to_dataframe_run io_return_def
      bars_table_def chart_url_def tag_def and_then_def split: sum.splits)

lemma append_each_run:
  assumes "logged body table url"
  shows "append_each body securities final_df w =
           (collect table securities final_df,
            w\<lparr>requests := requests w @ map url (reached table securities)\<rparr>)"
proof (induction securities arbitrary: final_df w)
  case Nil
  then show ?case by (simp add: io_return_def)
next
  case (Cons symbol rest)
  from assms have b: "body symbol w = (table symbol, log_request (url symbol) w)"
    by (simp add: logged_def)
  show ?case
  proof (cases "table symbol")
    case (Inl e)
    with b show ?thesis by (simp add: io_bind_def and_then_def log_request_def)
  next
    case (Inr df)
    with b Cons.IH[of "append_frame final_df df" "log_request (url symbol) w"]
    show ?thesis by (simp add: io_bind_def and_then_def log_request_def)
  qed
qed

lemma for_valid_securities_run:
  assumes "logged body table url"
  shows "for_valid_securities server body securities w =
     (case validated server securities of
        Inl e \<Rightarrow> (Inl e, log_request ref_data_url w)
      | Inr valid \<Rightarrow>
          if valid = [] then
            (Inr None, \<lparr>requests = requests w @ [ref_data_url], stdout = stdout w @ [invalid_message]\<rparr>)
          else
            (map_sum id Some (collect table valid empty_frame),
             \<lparr>requests = requests w @ ref_data_url # map url (reached table valid), stdout = stdout w\<rparr>))"
  by (simp add: for_valid_securities_def io_bind_def return_valid_securities_run
      append_each_run[OF assms] print_def io_return_def log_request_def
      split: sum.splits)

lemma get_latest_quote_and_trade_run:
  "get_latest_quote_and_trade server securities w =
     (case validated server securities of
        Inl e \<Rightarrow> (Inl e, log_request ref_data_url w)
      | Inr valid \<Rightarrow>
          if valid = [] then (Inr None, diagnosed w)
          else
            (map_sum id Some (quote_table server valid),
             \<lparr>requests = requests w @ [ref_data_url, tops_url valid], stdout = stdout w\<rparr>))"
  by (simp add: get_latest_quote_and_trade_def io_bind_def return_valid_securities_run
      url_to_dataframe_run print_def io_return_def io_lift_def log_request_def diagnosed_def
      quote_table_def tops_url_def and_then_def split: sum.splits)

lemma get_latest_trade_run:
  "get_latest_trade server securities w =
     (case validated server securities of
        Inl e \<Rightarrow> (Inl e, log_request ref_data_url w)
      | Inr valid \<Rightarrow>
          if valid = [] then (Inr None, diagnosed w)
          else
            (map_sum id Some (trade_table server valid),
             \<lparr>requests = requests w @ [ref_data_url, last_url valid], stdout = stdout w\<rparr>))"
  by (simp add: get_latest_trade_def io_bind_def return_valid_securities_run
      url_to_dataframe_run print_def io_return_def io_lift_def log_request_def diagnosed_def
      trade_table_def last_url_def and_then_def split: sum.splits)

lemma for_valid_securities_none:
  assumes "validated server securities = Inr []"
  shows "for_valid_securities server body securities w = (Inr None, diagnosed w)"
  using assms
  by (simp add: for_valid_securities_def io_bind_def return_valid_securities_run print_def
      io_return_def log_request_def diagnosed_def)

text \<open>
  Claim C2, as amended. When the validation returns and no requested symbol is listed in
  the reference list, each of the six operations prints the diagnostic, returns no table
  and no exception, and has issued the GET of the reference list and no other.
\<close>

theorem invalid_symbols_diagnosed:
  assumes "return_valid_securities server securities w = (Inr valid, w1)"
    and "dict_reply (server ref_data_url)"
    and "\<forall>s \<in> set securities. \<not> listed server s"
  shows "valid = []
    \<and> get_latest_quote_and_trade server securities w = (Inr None, diagnosed w)
    \<and> get_latest_trade server securities w = (Inr None, diagnosed w)
    \<and> get_latest_news server to_datetime securities count w = (Inr None, diagnosed w)
    \<and> get_financials server securities w = (Inr None, diagnosed w)
    \<and> get_earnings server securities w = (Inr None, diagnosed w)
    \<and> get_trade_bars_data server securities bucket w = (Inr None, diagnosed w)"
proof -
  from assms(1) have v: "validated server securities = Inr valid"
    by (simp add: return_valid_securities_run)
  from validated_filter[OF v assms(2)] assms(3) have e: "valid = []" by simp
  with v have n: "validated server securities = Inr []" by simp
  show ?thesis
    using e n
    by (simp add: get_latest_quote_and_trade_run get_latest_trade_run get_latest_news_loop
        get_financials_loop get_earnings_loop get_trade_bars_data_loop
        for_valid_securities_none)
qed

lemma reference_only_invalid:
  "return_valid_securities reference_only [''MSFT''] start
     = (Inr [], \<lparr>requests = [ref_data_url], stdout = []\<rparr>)"
  by (simp add: return_valid_securities_run validated_def fetch_def reference_only_def
      reference_reply_def and_then_def normalize_reply_def frame_of_records_def
      add_columns_def get_column_def comprehension_def cell_of_def log_request_def start_def)

lemma reference_only_unlisted: "\<forall>s \<in> set [''MSFT'']. \<not> listed reference_only s"
  by (simp add: listed_def reference_only_def reference_reply_def)

theorem invalid_symbols_diagnosed_witness:
  "get_latest_trade reference_only [''MSFT''] start
     = (Inr None, \<lparr>requests = [ref_data_url], stdout = [invalid_message]\<rparr>)
   \<and> get_trade_bars_data reference_only [''MSFT''] ''1m'' start
     = (Inr None, \<lparr>requests = [ref_data_url], stdout = [invalid_message]\<rparr>)"
  using invalid_symbols_diagnosed[OF reference_only_invalid reference_only_dict
      reference_only_unlisted, of "\<lambda>c. Inr c" 1 "''1m''"]
  by (simp add: diagnosed_def start_def)

text \<open>
  With an empty reference list every requested symbol is absent from it, and the
  operation raises: the empty table has no column \<^verbatim>\<open>symbol\<close>.
\<close>

theorem empty_reference_raises:
  "\<not> listed empty_reference ''MSFT''
   \<and> get_latest_trade empty_reference [''MSFT''] start
       = (Inl (KeyError ''symbol''), \<lparr>requests = [ref_data_url], stdout = []\<rparr>)"
  by (simp add: listed_def empty_reference_def get_latest_trade_run validated_def fetch_def
      and_then_def normalize_reply_def frame_of_records_def add_columns_def get_column_def
      log_request_def start_def)

lemma collect_rows:
  "collect table securities final_df = Inr out \<Longrightarrow>
     rows out = rows final_df @ concat (map (\<lambda>s. contribution (table s)) securities)
     \<and> (\<forall>s \<in> set securities. \<exists>df. table s = Inr df)"
proof (induction securities arbitrary: final_df)
  case Nil
  then show ?case by simp
next
  case (Cons symbol rest)
  from Cons.prems obtain df where t: "table symbol = Inr df"
    and c: "collect table rest (append_frame final_df df) = Inr out"
    by (auto simp: and_then_def split: sum.splits)
  from Cons.IH[OF c] t show ?case
    by (simp add: append_frame_def contribution_def)
qed

lemma cell_of_update:
  "cell_of (AList.update k v r) c = (if c = k then v else cell_of r c)"
  by (simp add: cell_of_def update_conv')

lemma cell_of_delete:
  "cell_of (AList.delete k r) c = (if c = k then NaN else cell_of r c)"
  by (simp add: cell_of_def delete_conv')

lemma cell_of_select:
  "cell_of (map (\<lambda>c. (c, cell_of r c)) cs) k = (if k \<in> set cs then cell_of r k else NaN)"
  by (induction cs) (auto simp: cell_of_def)

lemma zip_replicate_rows:
  "map (\<lambda>(r, v). f v r) (zip rs (replicate (length rs) v)) = map (f v) rs"
  by (induction rs) auto

lemma rows_tag: "rows (tag symbol df) = map (AList.update ''symbol'' (Val (JStr symbol))) (rows df)"
  by (simp add: tag_def set_scalar_def set_column_def zip_replicate_rows)

lemma tag_carries:
  "r \<in> set (rows (tag symbol df)) \<Longrightarrow> cell_of r ''symbol'' = Val (JStr symbol)"
  by (auto simp: rows_tag cell_of_update)

lemma select_columns_rows:
  "select_columns cs df = Inr df' \<Longrightarrow>
     rows df' = map (\<lambda>r. map (\<lambda>c. (c, cell_of r c)) cs) (rows df) \<and> columns df' = cs"
  by (auto simp: select_columns_def split: list.splits)

lemma shape_news_carries:
  assumes "shape_news to_datetime symbol df = Inr df'" "r \<in> set (rows df')"
  shows "cell_of r ''symbol'' = Val (JStr symbol)"
proof -
  from assms(1) obtain d where s: "select_columns news_columns (tag symbol d) = Inr df'"
    by (auto simp: shape_news_def and_then_def split: sum.splits)
  from select_columns_rows[OF s] assms(2) obtain r0 where r0: "r0 \<in> set (rows (tag symbol d))"
    and r: "r = map (\<lambda>c. (c, cell_of r0 c)) news_columns" by auto
  from r have "cell_of r ''symbol'' = cell_of r0 ''symbol''"
    by (simp add: cell_of_select) (simp add: news_columns_def)
  with tag_carries[OF r0] show ?thesis by simp
qed

lemma news_table_carries:
  "r \<in> set (contribution (news_table server to_datetime count symbol)) \<Longrightarrow>
     cell_of r ''symbol'' = Val (JStr symbol)"
  by (auto simp: contribution_def news_table_def and_then_def split: sum.splits
      dest: shape_news_carries[OF sym])

lemma financials_table_carries:
  "r \<in> set (contribution (financials_table server symbol)) \<Longrightarrow>
     cell_of r ''symbol'' = Val (JStr symbol)"
  by (auto simp: contribution_def financials_table_def and_then_def split: sum.splits
      dest: tag_carries)

lemma earnings_table_carries:
  "r \<in> set (contribution (earnings_table server symbol)) \<Longrightarrow>
     cell_of r ''symbol'' = Val (JStr symbol)"
  by (auto simp: contribution_def earnings_table_def and_then_def split: sum.splits
      dest: tag_carries)

lemma bars_table_carries:
  "r \<in> set (contribution (bars_table server bucket symbol)) \<Longrightarrow>
     cell_of r ''symbol'' = Val (JStr symbol)"
  by (auto simp: contribution_def bars_table_def and_then_def split: sum.splits
      dest: tag_carries)

lemma map_sum_Some: "(map_sum id Some t = Inr (Some out)) = (t = Inr out)"
  by (cases t) auto

lemma for_valid_securities_some:
  assumes l: "logged body table url"
    and r: "for_valid_securities server body securities w = (Inr (Some out), w')"
    and d: "dict_reply (server ref_data_url)"
  shows "collect table (filter (listed server) securities) empty_frame = Inr out
     \<and> filter (listed server) securities \<noteq> []
     \<and> w' = \<lparr>requests = requests w @ ref_data_url # map url (filter (listed server) securities),
             stdout = stdout w\<rparr>"
proof -
  from r obtain valid where v: "validated server securities = Inr valid"
    by (auto simp: for_valid_securities_run[OF l] split: sum.splits)
  from validated_filter[OF v d] have f: "valid = filter (listed server) securities" .
  from r v have ne: "valid \<noteq> []" and c: "collect table valid empty_frame = Inr out"
    and w: "w' = \<lparr>requests = requests w @ ref_data_url # map url (reached table valid),
             stdout = stdout w\<rparr>"
    by (auto simp: for_valid_securities_run[OF l] map_sum_Some split: if_splits sum.splits)
  have "reached table xs = xs" if "\<forall>s \<in> set xs. \<exists>df. table s = Inr df" for xs
    using that by (induction xs) auto
  with collect_rows[OF c] have "reached table valid = valid" by blast
  with f ne c w show ?thesis by simp
qed

lemma symbol_rows_collect:
  assumes c: "collect table (filter (listed server) securities) empty_frame = Inr out"
    and t: "\<And>s r. r \<in> set (contribution (table s)) \<Longrightarrow> cell_of r ''symbol'' = Val (JStr s)"
  shows "symbol_rows server securities table out"
proof -
  from collect_rows[OF c]
  have r: "rows out = concat (map (\<lambda>s. contribution (table s)) (filter (listed server) securities))"
    by (simp add: empty_frame_def)
  have "\<exists>s \<in> set securities. listed server s \<and> cell_of x ''symbol'' = Val (JStr s)"
    if "x \<in> set (rows out)" for x
  proof -
    from that r obtain s where "s \<in> set securities" "listed server s"
      "x \<in> set (contribution (table s))" by auto
    with t show ?thesis by blast
  qed
  with r t show ?thesis by (simp add: symbol_rows_def)
qed

text \<open>
  Claim C3. In the table returned by the news, financials, earnings and bars operations,
  the rows are those fetched for the valid symbols, in order; every row carries in its
  \<^verbatim>\<open>symbol\<close> column the symbol whose fetch produced it; and no row carries a symbol that
  was not requested or is not listed.
\<close>

theorem rows_carry_their_symbol:
  assumes "dict_reply (server ref_data_url)"
  shows "(get_latest_news server to_datetime securities count w = (Inr (Some out), w') \<longrightarrow>
            symbol_rows server securities (news_table server to_datetime count) out)
    \<and> (get_financials server securities w = (Inr (Some out), w') \<longrightarrow>
            symbol_rows server securities (financials_table server) out)
    \<and> (get_earnings server securities w = (Inr (Some out), w') \<longrightarrow>
            symbol_rows server securities (earnings_table server) out)
    \<and> (get_trade_bars_data server securities bucket w = (Inr (Some out), w') \<longrightarrow>
            symbol_rows server securities (bars_table server bucket) out)"
proof (intro conjI impI)
  assume "get_latest_news server to_datetime securities count w = (Inr (Some out), w')"
  then have "for_valid_securities server (news_frame server to_datetime count) securities w
               = (Inr (Some out), w')" by (simp add: get_latest_news_loop)
  from for_valid_securities_some[OF news_frame_logged this assms]
  show "symbol_rows server securities (news_table server to_datetime count) out"
    by (simp add: symbol_rows_collect news_table_carries)
next
  assume "get_financials server securities w = (Inr (Some out), w')"
  then have "for_valid_securities server (financials_frame server) securities w
               = (Inr (Some out), w')" by (simp add: get_financials_loop)
  from for_valid_securities_some[OF financials_frame_logged this assms]
  show "symbol_rows server securities (financials_table server) out"
    by (simp add: symbol_rows_collect financials_table_carries)
next
  assume "get_earnings server securities w = (Inr (Some out), w')"
  then have "for_valid_securities server (earnings_frame server) securities w
               = (Inr (Some out), w')" by (simp add: get_earnings_loop)
  from for_valid_securities_some[OF earnings_frame_logged this assms]
  show "symbol_rows server securities (earnings_table server) out"
    by (simp add: symbol_rows_collect earnings_table_carries)
next
  assume "get_trade_bars_data server securities bucket w = (Inr (Some out), w')"
  then have "for_valid_securities server (bars_frame server bucket) securities w
               = (Inr (Some out), w')" by (simp add: get_trade_bars_data_loop)
  from for_valid_securities_some[OF bars_frame_logged this assms]
  show "symbol_rows server securities (bars_table server bucket) out"
    by (simp add: symbol_rows_collect bars_table_carries)
qed

lemma market_dict: "dict_reply (market ref_data_url)"
  by code_simp

lemma market_financials:
  "get_financials market [''AAPL'', ''MSFT''] start =
     (Inr (Some \<lparr>columns = [''reportDate'', ''netIncome'', ''symbol''],
            rows = [[(''reportDate'', Val (JStr ''2017-03-31'')), (''netIncome'', Val (JNum 11029)),
                     (''symbol'', Val (JStr ''AAPL''))],
                    [(''reportDate'', Val (JStr ''2016-12-31'')), (''netIncome'', Val (JNum 17891)),
                     (''symbol'', Val (JStr ''AAPL''))]],
            index = RangeIndex\<rparr>),
      \<lparr>requests = [ref_data_url, financials_url ''AAPL''], stdout = []\<rparr>)"
  by code_simp

theorem rows_carry_their_symbol_witness:
  "symbol_rows market [''AAPL'', ''MSFT''] (financials_table market)
     \<lparr>columns = [''reportDate'', ''netIncome'', ''symbol''],
      rows = [[(''reportDate'', Val (JStr ''2017-03-31'')), (''netIncome'', Val (JNum 11029)),
               (''symbol'', Val (JStr ''AAPL''))],
              [(''reportDate'', Val (JStr ''2016-12-31'')), (''netIncome'', Val (JNum 17891)),
               (''symbol'', Val (JStr ''AAPL''))]],
      index = RangeIndex\<rparr>"
  using rows_carry_their_symbol[where server = market, OF market_dict, THEN conjunct2,
      THEN conjunct1, THEN mp, OF market_financials]
  by simp






lemma market_financials_reply:
  "market (financials_url ''AAPL'') =
     Body (JObj [(''symbol'', JStr ''AAPL''),
                 (''financials'', JArr [JObj [(''reportDate'', JStr ''2017-03-31''), (''netIncome'', JNum 11029)],
                                        JObj [(''reportDate'', JStr ''2016-12-31''), (''netIncome'', JNum 17891)]])])"
  by code_simp



lemma fetch_array:
  "server url = Body (JArr xs) \<Longrightarrow> list_all is_object xs \<Longrightarrow>
     fetch server url None = Inr (frame_of_records (map record_of xs))"
  by (simp add: fetch_def and_then_def normalize_reply_def)

lemma fetch_failure:
  "read_json (server url) = Inl e \<Longrightarrow> fetch server url nest = Inl e"
  by (simp add: fetch_def and_then_def)

text \<open>
  Claim C7. For a single valid symbol and any bucket text, \<^verbatim>\<open>get_trade_bars_data\<close> issues,
  after the validation fetch, exactly one GET, to \<^verbatim>\<open>stock/{symbol}/chart/{bucket}\<close>, an
  address other than that of the reference list; when
  the reply is an array of objects the result has one row per entry, in order, each
  carrying the symbol; the bucket is not checked before use, and a failed request for it
  is the result of the call.
\<close>

theorem single_symbol_bars:
  assumes "return_valid_securities server [symbol] w = (Inr [symbol], w1)"
  shows "snd (get_trade_bars_data server [symbol] bucket w)
           = \<lparr>requests = requests w @ [ref_data_url, chart_url bucket symbol], stdout = stdout w\<rparr>
    \<and> chart_url bucket symbol = end_point_prefix @ ''stock/'' @ symbol @ ''/chart/'' @ bucket
    \<and> chart_url bucket symbol \<noteq> ref_data_url
    \<and> (\<forall>xs. server (chart_url bucket symbol) = Body (JArr xs) \<and> list_all is_object xs \<longrightarrow>
          (\<exists>out. fst (get_trade_bars_data server [symbol] bucket w) = Inr (Some out)
             \<and> rows out = map (\<lambda>x. AList.update ''symbol'' (Val (JStr symbol)) (record_of x)) xs
             \<and> length (rows out) = length xs
             \<and> (\<forall>r \<in> set (rows out). cell_of r ''symbol'' = Val (JStr symbol))))
    \<and> (\<forall>e. read_json (server (chart_url bucket symbol)) = Inl e \<longrightarrow>
          fst (get_trade_bars_data server [symbol] bucket w) = Inl e)"
proof -
  from assms have v: "validated server [symbol] = Inr [symbol]"
    by (simp add: return_valid_securities_run)
  have run: "get_trade_bars_data server [symbol] bucket w =
      (map_sum id Some (and_then (bars_table server bucket symbol)
                          (\<lambda>df. Inr (append_frame empty_frame df))),
       \<lparr>requests = requests w @ [ref_data_url, chart_url bucket symbol], stdout = stdout w\<rparr>)"
    by (simp add: get_trade_bars_data_loop for_valid_securities_run[OF bars_frame_logged] v
        split: sum.splits)
  have ok: "\<exists>out. fst (get_trade_bars_data server [symbol] bucket w) = Inr (Some out)
             \<and> rows out = map (\<lambda>x. AList.update ''symbol'' (Val (JStr symbol)) (record_of x)) xs
             \<and> length (rows out) = length xs
             \<and> (\<forall>r \<in> set (rows out). cell_of r ''symbol'' = Val (JStr symbol))"
    if "server (chart_url bucket symbol) = Body (JArr xs)" "list_all is_object xs" for xs
  proof -
    from fetch_array[where server = server, OF that]
    have "bars_table server bucket symbol = Inr (tag symbol (frame_of_records (map record_of xs)))"
      by (simp add: bars_table_def and_then_def)
    then show ?thesis
      by (simp add: run and_then_def append_frame_def empty_frame_def rows_tag
          frame_of_records_def cell_of_update)
  qed
  have bad: "fst (get_trade_bars_data server [symbol] bucket w) = Inl e"
    if "read_json (server (chart_url bucket symbol)) = Inl e" for e
    using fetch_failure[where server = server, OF that] by (simp add: run bars_table_def and_then_def)
  have "chart_url bucket symbol \<noteq> ref_data_url"
    by (simp add: chart_url_def ref_data_url_def)
  with ok bad show ?thesis by (simp add: run chart_url_def)
qed

lemma market_valid_AAPL:
  "return_valid_securities market [''AAPL''] start
     = (Inr [''AAPL''], \<lparr>requests = [ref_data_url], stdout = []\<rparr>)"
  by code_simp

lemma market_chart_reply:
  "market (chart_url ''1y'' ''AAPL'') =
     Body (JArr [JObj [(''date'', JNum 1500000000000), (''close'', JNum 149)],
                 JObj [(''date'', JNum 1500086400000), (''close'', JNum 150)]])
   \<and> list_all is_object [JObj [(''date'', JNum 1500000000000), (''close'', JNum 149)],
                 JObj [(''date'', JNum 1500086400000), (''close'', JNum 150)]]"
  by code_simp

lemma market_chart_unknown: "read_json (market (chart_url ''7w'' ''AAPL'')) = Inl (HTTPError 404)"
  by code_simp

theorem single_symbol_bars_witness:
  "snd (get_trade_bars_data market [''AAPL''] ''1y'' start)
     = \<lparr>requests = [ref_data_url, chart_url ''1y'' ''AAPL''], stdout = []\<rparr>
   \<and> (\<exists>out. fst (get_trade_bars_data market [''AAPL''] ''1y'' start) = Inr (Some out)
         \<and> length (rows out) = 2)
   \<and> fst (get_trade_bars_data market [''AAPL''] ''7w'' start) = Inl (HTTPError 404)"
proof -
  note a = single_symbol_bars[where server = market, OF market_valid_AAPL, of "''1y''"]
  note b = single_symbol_bars[where server = market, OF market_valid_AAPL, of "''7w''"]
  from a have 1: "snd (get_trade_bars_data market [''AAPL''] ''1y'' start)
     = \<lparr>requests = [ref_data_url, chart_url ''1y'' ''AAPL''], stdout = []\<rparr>"
    by (simp add: start_def)
  from a market_chart_reply
  have 2: "\<exists>out. fst (get_trade_bars_data market [''AAPL''] ''1y'' start) = Inr (Some out)
         \<and> length (rows out) = 2" by fastforce
  from b market_chart_unknown
  have 3: "fst (get_trade_bars_data market [''AAPL''] ''7w'' start) = Inl (HTTPError 404)"
    by blast
  from 1 2 3 show ?thesis by simp
qed

section \<open>News\<close>


lemma add_columns_old: "set ks \<subseteq> set cs \<Longrightarrow> add_columns cs ks = cs"
  unfolding add_columns_def
  by (induction ks arbitrary: cs) auto


lemma traverse_all2:
  "traverse f xs = Inr ys \<Longrightarrow> list_all2 (\<lambda>x y. f x = Inr y) xs ys"
  by (induction xs arbitrary: ys) (auto simp: and_then_def split: sum.splits)






section \<open>Timestamps\<close>

lemma zip_updated:
  "list_all2 (\<lambda>r0 t. f r0 = Inr t) rs ts \<Longrightarrow>
     list_all2 (\<lambda>r0 r. \<exists>t. f r0 = Inr t \<and> r = AList.update c t r0) rs
       (map (\<lambda>(r, v). AList.update c v r) (zip rs ts))"
  by (induction rule: list_all2_induct) auto

lemma decode_column_rows:
  assumes "decode_column c df = Inr df'"
  shows "list_all2 (\<lambda>r0 r. \<exists>t. to_datetime_ms (cell_of r0 c) = Inr t \<and> r = AList.update c t r0)
           (rows df) (rows df')"
    and "columns df' = columns df"
proof -
  from assms obtain vs ts where g: "get_column c df = Inr vs"
    and t: "traverse to_datetime_ms vs = Inr ts" and d: "df' = set_column c ts df"
    by (auto simp: decode_column_def and_then_def split: sum.splits)
  from g have vs: "vs = map (\<lambda>r. cell_of r c) (rows df)" and c: "c \<in> set (columns df)"
    by (simp_all add: get_column_def split: if_splits)
  from traverse_all2[OF t] vs
  have "list_all2 (\<lambda>r0 t. to_datetime_ms (cell_of r0 c) = Inr t) (rows df) ts"
    by (simp add: list_all2_map1)
  from zip_updated[OF this] d
  show "list_all2 (\<lambda>r0 r. \<exists>t. to_datetime_ms (cell_of r0 c) = Inr t \<and> r = AList.update c t r0)
           (rows df) (rows df')" by (simp add: set_column_def)
  from c d show "columns df' = columns df" by (simp add: set_column_def add_columns_old)
qed

lemma list_all2_map_eq: "list_all2 (\<lambda>x y. f x = g y) xs ys \<Longrightarrow> map f xs = map g ys"
  by (induction rule: list_all2_induct) auto

lemma flatten_cells:
  "(k, c) \<in> set (flatten key v) \<Longrightarrow> \<exists>j. c = Val j"
  "(k, c) \<in> set (flatten_fields p kvs) \<Longrightarrow> \<exists>j. c = Val j"
  by (induction key v and p kvs rule: flatten_flatten_fields.induct) auto

lemma record_cell_raw: "cell_of (record_of x) c \<noteq> Timestamp t"
proof (cases x)
  case (JObj kvs)
  show ?thesis
  proof (cases "map_of (flatten_fields [] kvs) c")
    case None
    with JObj show ?thesis by (simp add: cell_of_def)
  next
    case (Some v)
    from map_of_SomeD[OF this] flatten_cells(2) obtain j where "v = Val j" by blast
    with Some JObj show ?thesis by (simp add: cell_of_def)
  qed
qed (simp_all add: cell_of_def)

lemma for_valid_securities_collect:
  assumes "logged body table url"
    and "for_valid_securities server body securities w = (Inr (Some out), w')"
  shows "\<exists>valid. validated server securities = Inr valid \<and> valid \<noteq> []
           \<and> collect table valid empty_frame = Inr out"
  using assms(2)
  by (auto simp: for_valid_securities_run[OF assms(1)] map_sum_Some split: sum.splits if_splits)

lemma bars_rows_raw:
  assumes "get_trade_bars_data server securities bucket w = (Inr (Some out), w')"
    and "r \<in> set (rows out)"
  shows "cell_of r c \<noteq> Timestamp t"
proof -
  from assms(1) for_valid_securities_collect[OF bars_frame_logged]
  obtain valid where c: "collect (bars_table server bucket) valid empty_frame = Inr out"
    unfolding get_trade_bars_data_loop by blast
  from collect_rows[OF c] assms(2) obtain s where
    "r \<in> set (contribution (bars_table server bucket s))" by (auto simp: empty_frame_def)
  then obtain d where b: "bars_table server bucket s = Inr d" and rd: "r \<in> set (rows d)"
    by (cases "bars_table server bucket s") (auto simp: contribution_def)
  from b obtain df where f: "fetch server (chart_url bucket s) None = Inr df" and d: "d = tag s df"
    by (auto simp: bars_table_def and_then_def split: sum.splits)
  from rd d fetch_rows[OF f] obtain x where "r = AList.update ''symbol'' (Val (JStr s)) (record_of x)"
    by (auto simp: rows_tag)
  then show ?thesis by (simp add: cell_of_update record_cell_raw)
qed

lemma quote_table_rows:
  assumes "quote_table server valid = Inr out"
  shows "\<exists>df. fetch server (tops_url valid) None = Inr df
     \<and> index out = LabelIndex ''symbol'' (map (\<lambda>r. cell_of r ''symbol'') (rows df))
     \<and> list_all2 (\<lambda>r0 r.
           to_datetime_ms (cell_of r0 ''lastSaleTime'') = Inr (cell_of r ''lastSaleTime'')
         \<and> to_datetime_ms (cell_of r0 ''lastUpdated'') = Inr (cell_of r ''lastUpdated''))
         (rows df) (rows out)"
proof -
  from assms obtain df df1 df2 where f: "fetch server (tops_url valid) None = Inr df"
    and d1: "decode_column ''lastSaleTime'' df = Inr df1"
    and d2: "decode_column ''lastUpdated'' df1 = Inr df2"
    and s: "set_index ''symbol'' df2 = Inr out"
    by (auto simp: quote_table_def and_then_def split: sum.splits)
  from s have out: "rows out = map (AList.delete ''symbol'') (rows df2)"
      "index out = LabelIndex ''symbol'' (map (\<lambda>r. cell_of r ''symbol'') (rows df2))"
    by (auto simp: set_index_def split: if_splits)
  have 12: "list_all2 (\<lambda>r0 r. \<exists>t1 t2.
        to_datetime_ms (cell_of r0 ''lastSaleTime'') = Inr t1
      \<and> to_datetime_ms (cell_of r0 ''lastUpdated'') = Inr t2
      \<and> r = AList.update ''lastUpdated'' t2 (AList.update ''lastSaleTime'' t1 r0))
      (rows df) (rows df2)"
    by (rule list_all2_trans[OF _ decode_column_rows(1)[OF d1] decode_column_rows(1)[OF d2]])
      (auto simp: cell_of_update)
  then have "list_all2 (\<lambda>r0 r. cell_of r0 ''symbol'' = cell_of r ''symbol'') (rows df) (rows df2)"
    by (rule list_all2_mono) (auto simp: cell_of_update)
  from list_all2_map_eq[OF this] out(2)
  have i: "index out = LabelIndex ''symbol'' (map (\<lambda>r. cell_of r ''symbol'') (rows df))" by simp
  from 12 have "list_all2 (\<lambda>r0 r.
           to_datetime_ms (cell_of r0 ''lastSaleTime'') = Inr (cell_of (AList.delete ''symbol'' r) ''lastSaleTime'')
         \<and> to_datetime_ms (cell_of r0 ''lastUpdated'') = Inr (cell_of (AList.delete ''symbol'' r) ''lastUpdated''))
         (rows df) (rows df2)"
    by (rule list_all2_mono) (auto simp: cell_of_update cell_of_delete)
  with out(1) f i show ?thesis by (simp add: list_all2_map2)
qed

lemma trade_table_rows:
  assumes "trade_table server valid = Inr out"
  shows "\<exists>df. fetch server (last_url valid) None = Inr df
     \<and> index out = LabelIndex ''symbol'' (map (\<lambda>r. cell_of r ''symbol'') (rows df))
     \<and> list_all2 (\<lambda>r0 r. to_datetime_ms (cell_of r0 ''time'') = Inr (cell_of r ''time''))
         (rows df) (rows out)"
proof -
  from assms obtain df df1 where f: "fetch server (last_url valid) None = Inr df"
    and d1: "decode_column ''time'' df = Inr df1"
    and s: "set_index ''symbol'' df1 = Inr out"
    by (auto simp: trade_table_def and_then_def split: sum.splits)
  from s have out: "rows out = map (AList.delete ''symbol'') (rows df1)"
      "index out = LabelIndex ''symbol'' (map (\<lambda>r. cell_of r ''symbol'') (rows df1))"
    by (auto simp: set_index_def split: if_splits)
  note 1 = decode_column_rows(1)[OF d1]
  from 1 have "list_all2 (\<lambda>r0 r. cell_of r0 ''symbol'' = cell_of r ''symbol'') (rows df) (rows df1)"
    by (rule list_all2_mono) (auto simp: cell_of_update)
  from list_all2_map_eq[OF this] out(2)
  have i: "index out = LabelIndex ''symbol'' (map (\<lambda>r. cell_of r ''symbol'') (rows df))" by simp
  from 1 have "list_all2 (\<lambda>r0 r.
           to_datetime_ms (cell_of r0 ''time'') = Inr (cell_of (AList.delete ''symbol'' r) ''time''))
         (rows df) (rows df1)"
    by (rule list_all2_mono) (auto simp: cell_of_update cell_of_delete)
  with out(1) f i show ?thesis by (simp add: list_all2_map2)
qed

text \<open>
  Claim C6, as amended. Decoding the epoch-millisecond value 1500000000000 gives the
  timestamp that reads 2017-07-14 02:40:00 UTC. In a table \<^verbatim>\<open>get_latest_quote_and_trade\<close>
  returns, \<^verbatim>\<open>lastSaleTime\<close> and \<^verbatim>\<open>lastUpdated\<close> of every row are the decoded values of
  the server's fields, and the rows are labelled by the server's \<^verbatim>\<open>symbol\<close> values; in a
  table \<^verbatim>\<open>get_latest_trade\<close> returns the same holds of \<^verbatim>\<open>time\<close>. A table
  \<^verbatim>\<open>get_trade_bars_data\<close> returns holds no decoded timestamp: its cells are as the server
  sent them.
\<close>

theorem epoch_fields_decoded:
  "to_datetime_ms (Val (JNum 1500000000000)) = Inr (Timestamp 1500000000000)
   \<and> calendar_of 1500000000000
       = \<lparr>year = 2017, month = 7, day = 14, hour = 2, minute = 40, second = 0, millisecond = 0\<rparr>
   \<and> (get_latest_quote_and_trade server securities w = (Inr (Some out), w') \<longrightarrow>
         (\<exists>valid df. validated server securities = Inr valid
            \<and> fetch server (tops_url valid) None = Inr df
            \<and> index out = LabelIndex ''symbol'' (map (\<lambda>r. cell_of r ''symbol'') (rows df))
            \<and> list_all2 (\<lambda>r0 r.
                  to_datetime_ms (cell_of r0 ''lastSaleTime'') = Inr (cell_of r ''lastSaleTime'')
                \<and> to_datetime_ms (cell_of r0 ''lastUpdated'') = Inr (cell_of r ''lastUpdated''))
                (rows df) (rows out)))
   \<and> (get_latest_trade server securities w = (Inr (Some out), w') \<longrightarrow>
         (\<exists>valid df. validated server securities = Inr valid
            \<and> fetch server (last_url valid) None = Inr df
            \<and> index out = LabelIndex ''symbol'' (map (\<lambda>r. cell_of r ''symbol'') (rows df))
            \<and> list_all2 (\<lambda>r0 r. to_datetime_ms (cell_of r0 ''time'') = Inr (cell_of r ''time''))
                (rows df) (rows out)))
   \<and> (get_trade_bars_data server securities bucket w = (Inr (Some out), w') \<longrightarrow>
         (\<forall>r \<in> set (rows out). \<forall>c t. cell_of r c \<noteq> Timestamp t))"
proof (intro conjI impI)
  show "to_datetime_ms (Val (JNum 1500000000000)) = Inr (Timestamp 1500000000000)" by simp
  show "calendar_of 1500000000000
       = \<lparr>year = 2017, month = 7, day = 14, hour = 2, minute = 40, second = 0, millisecond = 0\<rparr>"
    by code_simp
next
  assume "get_latest_quote_and_trade server securities w = (Inr (Some out), w')"
  then obtain valid where v: "validated server securities = Inr valid"
    and q: "quote_table server valid = Inr out"
    by (auto simp: get_latest_quote_and_trade_run map_sum_Some split: sum.splits if_splits)
  from quote_table_rows[OF q] v
  show "\<exists>valid df. validated server securities = Inr valid
            \<and> fetch server (tops_url valid) None = Inr df
            \<and> index out = LabelIndex ''symbol'' (map (\<lambda>r. cell_of r ''symbol'') (rows df))
            \<and> list_all2 (\<lambda>r0 r.
                  to_datetime_ms (cell_of r0 ''lastSaleTime'') = Inr (cell_of r ''lastSaleTime'')
                \<and> to_datetime_ms (cell_of r0 ''lastUpdated'') = Inr (cell_of r ''lastUpdated''))
                (rows df) (rows out)" by blast
next
  assume "get_latest_trade server securities w = (Inr (Some out), w')"
  then obtain valid where v: "validated server securities = Inr valid"
    and q: "trade_table server valid = Inr out"
    by (auto simp: get_latest_trade_run map_sum_Some split: sum.splits if_splits)
  from trade_table_rows[OF q] v
  show "\<exists>valid df. validated server securities = Inr valid
            \<and> fetch server (last_url valid) None = Inr df
            \<and> index out = LabelIndex ''symbol'' (map (\<lambda>r. cell_of r ''symbol'') (rows df))
            \<and> list_all2 (\<lambda>r0 r. to_datetime_ms (cell_of r0 ''time'') = Inr (cell_of r ''time''))
                (rows df) (rows out)" by blast
next
  assume "get_trade_bars_data server securities bucket w = (Inr (Some out), w')"
  from bars_rows_raw[OF this]
  show "\<forall>r \<in> set (rows out). \<forall>c t. cell_of r c \<noteq> Timestamp t" by blast
qed

lemma market_quote:
  "get_latest_quote_and_trade market [''AAPL'', ''MSFT''] start =
     (Inr (Some \<lparr>columns = [''lastSalePrice'', ''lastSaleTime'', ''lastUpdated''],
            rows = [[(''lastSalePrice'', Val (JNum 149)), (''lastSaleTime'', Timestamp 1500000000000),
                     (''lastUpdated'', Timestamp 1500000000123)]],
            index = LabelIndex ''symbol'' [Val (JStr ''AAPL'')]\<rparr>),
      \<lparr>requests = [ref_data_url, tops_url [''AAPL'']], stdout = []\<rparr>)"
  by code_simp

theorem epoch_fields_decoded_witness:
  "\<exists>valid df. validated market [''AAPL'', ''MSFT''] = Inr valid
      \<and> fetch market (tops_url valid) None = Inr df
      \<and> index \<lparr>columns = [''lastSalePrice'', ''lastSaleTime'', ''lastUpdated''],
            rows = [[(''lastSalePrice'', Val (JNum 149)), (''lastSaleTime'', Timestamp 1500000000000),
                     (''lastUpdated'', Timestamp 1500000000123)]],
            index = LabelIndex ''symbol'' [Val (JStr ''AAPL'')]\<rparr>
          = LabelIndex ''symbol'' (map (\<lambda>r. cell_of r ''symbol'') (rows df))
      \<and> list_all2 (\<lambda>r0 r.
            to_datetime_ms (cell_of r0 ''lastSaleTime'') = Inr (cell_of r ''lastSaleTime'')
          \<and> to_datetime_ms (cell_of r0 ''lastUpdated'') = Inr (cell_of r ''lastUpdated''))
          (rows df)
          (rows \<lparr>columns = [''lastSalePrice'', ''lastSaleTime'', ''lastUpdated''],
            rows = [[(''lastSalePrice'', Val (JNum 149)), (''lastSaleTime'', Timestamp 1500000000000),
                     (''lastUpdated'', Timestamp 1500000000123)]],
            index = LabelIndex ''symbol'' [Val (JStr ''AAPL'')]\<rparr>)"
  using epoch_fields_decoded[where server = market, THEN conjunct2, THEN conjunct2,
      THEN conjunct1, THEN mp, OF market_quote]
  by blast

text \<open>
  A bars reply whose \<^verbatim>\<open>date\<close> field is an epoch-millisecond number comes back as the
  number, not as a timestamp.
\<close>

theorem bars_not_decoded:
  "get_trade_bars_data market [''AAPL''] ''1y'' start =
     (Inr (Some \<lparr>columns = [''date'', ''close'', ''symbol''],
            rows = [[(''date'', Val (JNum 1500000000000)), (''close'', Val (JNum 149)),
                     (''symbol'', Val (JStr ''AAPL''))],
                    [(''date'', Val (JNum 1500086400000)), (''close'', Val (JNum 150)),
                     (''symbol'', Val (JStr ''AAPL''))]],
            index = RangeIndex\<rparr>),
      \<lparr>requests = [ref_data_url, chart_url ''1y'' ''AAPL''], stdout = []\<rparr>)
   \<and> to_datetime_ms (Val (JNum 1500000000000)) = Inr (Timestamp 1500000000000)"
  by code_simp

section \<open>Exceptions\<close>

lemma map_sum_None: "map_sum id Some t \<noteq> Inr None"
  by (cases t) auto

lemma collect_raises:
  assumes "\<forall>p \<in> set pre. \<exists>df. table p = Inr df" and "table s = Inl e"
  shows "collect table (pre @ s # post) final_df = Inl e
     \<and> reached table (pre @ s # post) = pre @ [s]"
  using assms
  by (induction pre arbitrary: final_df) (auto simp: and_then_def)

lemma per_symbol_split:
  assumes "per_symbol url table valid = pre @ (u, Inl e) # post"
    and "\<forall>p \<in> set pre. \<exists>df. snd p = Inr df"
  shows "\<exists>a s b. valid = a @ s # b \<and> (\<forall>p \<in> set a. \<exists>df. table p = Inr df)
           \<and> table s = Inl e \<and> map url a = map fst pre \<and> url s = u"
proof -
  from assms(1) have "map (\<lambda>s. (url s, table s)) valid = pre @ [(u, Inl e)] @ post"
    by (simp add: per_symbol_def)
  then obtain a c where v: "valid = a @ c" and a: "map (\<lambda>s. (url s, table s)) a = pre"
    and c: "map (\<lambda>s. (url s, table s)) c = [(u, Inl e)] @ post"
    by (auto simp: map_eq_append_conv)
  from c obtain s b where c': "c = s # b" and s: "url s = u" "table s = Inl e"
    by (cases c) auto
  from a assms(2) have "\<forall>p \<in> set a. \<exists>df. table p = Inr df" by auto
  moreover from a have "map url a = map fst pre" by auto
  ultimately show ?thesis using v c' s by blast
qed

lemma for_valid_securities_raises_through:
  assumes l: "logged body table url"
  shows "raises_through server securities (per_symbol url table)
           (for_valid_securities server body securities)"
  unfolding raises_through_def
proof (intro allI conjI impI)
  fix w
  show "(fst (for_valid_securities server body securities w) = Inr None)
          = (validated server securities = Inr [])"
    by (auto simp: for_valid_securities_run[OF l] map_sum_None split: sum.splits)
next
  fix w e
  assume "validated server securities = Inl e"
  then show "for_valid_securities server body securities w = (Inl e, log_request ref_data_url w)"
    by (simp add: for_valid_securities_run[OF l])
next
  fix w valid pre u e post
  assume a: "validated server securities = Inr valid \<and> valid \<noteq> []
      \<and> per_symbol url table valid = pre @ (u, Inl e) # post
      \<and> (\<forall>p \<in> set pre. \<exists>df. snd p = Inr df)"
  then obtain x s y where v: "valid = x @ s # y" and x: "\<forall>p \<in> set x. \<exists>df. table p = Inr df"
    and s: "table s = Inl e" and m: "map url x = map fst pre" and u: "url s = u"
    using per_symbol_split[of url table valid pre u e post] by blast
  from collect_raises[OF x s] have "collect table valid empty_frame = Inl e"
    "reached table valid = x @ [s]" by (simp_all add: v)
  with a m u
  show "for_valid_securities server body securities w =
          (Inl e, \<lparr>requests = requests w @ ref_data_url # map fst pre @ [u], stdout = stdout w\<rparr>)"
    by (simp add: for_valid_securities_run[OF l])
qed

lemma quote_raises_through:
  "raises_through server securities (\<lambda>valid. [(tops_url valid, quote_table server valid)])
     (get_latest_quote_and_trade server securities)"
  unfolding raises_through_def
proof (intro allI conjI impI)
  fix w
  show "(fst (get_latest_quote_and_trade server securities w) = Inr None)
          = (validated server securities = Inr [])"
    by (auto simp: get_latest_quote_and_trade_run map_sum_None split: sum.splits)
next
  fix w e
  assume "validated server securities = Inl e"
  then show "get_latest_quote_and_trade server securities w = (Inl e, log_request ref_data_url w)"
    by (simp add: get_latest_quote_and_trade_run)
next
  fix w valid pre u e post
  assume a: "validated server securities = Inr valid \<and> valid \<noteq> []
      \<and> [(tops_url valid, quote_table server valid)] = pre @ (u, Inl e) # post
      \<and> (\<forall>p \<in> set pre. \<exists>df. snd p = Inr df)"
  then have "pre = []" "u = tops_url valid" "quote_table server valid = Inl e"
    by (auto simp: Cons_eq_append_conv)
  with a show "get_latest_quote_and_trade server securities w =
          (Inl e, \<lparr>requests = requests w @ ref_data_url # map fst pre @ [u], stdout = stdout w\<rparr>)"
    by (simp add: get_latest_quote_and_trade_run)
qed

lemma trade_raises_through:
  "raises_through server securities (\<lambda>valid. [(last_url valid, trade_table server valid)])
     (get_latest_trade server securities)"
  unfolding raises_through_def
proof (intro allI conjI impI)
  fix w
  show "(fst (get_latest_trade server securities w) = Inr None)
          = (validated server securities = Inr [])"
    by (auto simp: get_latest_trade_run map_sum_None split: sum.splits)
next
  fix w e
  assume "validated server securities = Inl e"
  then show "get_latest_trade server securities w = (Inl e, log_request ref_data_url w)"
    by (simp add: get_latest_trade_run)
next
  fix w valid pre u e post
  assume a: "validated server securities = Inr valid \<and> valid \<noteq> []
      \<and> [(last_url valid, trade_table server valid)] = pre @ (u, Inl e) # post
      \<and> (\<forall>p \<in> set pre. \<exists>df. snd p = Inr df)"
  then have "pre = []" "u = last_url valid" "trade_table server valid = Inl e"
    by (auto simp: Cons_eq_append_conv)
  with a show "get_latest_trade server securities w =
          (Inl e, \<lparr>requests = requests w @ ref_data_url # map fst pre @ [u], stdout = stdout w\<rparr>)"
    by (simp add: get_latest_trade_run)
qed

lemma missing_key:
  "server url = Body (JObj kvs) \<Longrightarrow> map_of kvs key = None \<Longrightarrow> key \<noteq> [] \<Longrightarrow>
     fetch server url (Some key) = Inl (KeyError key)"
  by (simp add: fetch_def and_then_def normalize_reply_def)

lemma missing_column:
  "c \<notin> set (columns df) \<Longrightarrow> decode_column c df = Inl (KeyError c)"
  by (simp add: decode_column_def get_column_def and_then_def)

text \<open>
  Claim C8. Each of the six operations handles the empty validation result and nothing
  else: an exception raised by the validation or by any later step is the result of the
  operation, and no address is requested again after it. A refused connection, a status
  outside 2xx and a body that is not JSON make the fetch raise, as does a missing nested
  key; a missing timestamp column makes the decoding raise; and a fetch that raises
  makes the step raise.
\<close>

theorem failures_propagate:
  "raises_through server securities (\<lambda>valid. [(tops_url valid, quote_table server valid)])
     (get_latest_quote_and_trade server securities)
   \<and> raises_through server securities (\<lambda>valid. [(last_url valid, trade_table server valid)])
     (get_latest_trade server securities)
   \<and> raises_through server securities
       (per_symbol (news_url count) (news_table server to_datetime count))
       (get_latest_news server to_datetime securities count)
   \<and> raises_through server securities (per_symbol financials_url (financials_table server))
       (get_financials server securities)
   \<and> raises_through server securities (per_symbol earnings_url (earnings_table server))
       (get_earnings server securities)
   \<and> raises_through server securities (per_symbol (chart_url bucket) (bars_table server bucket))
       (get_trade_bars_data server securities bucket)
   \<and> read_json Refused = Inl URLError
   \<and> read_json (Status code) = Inl (HTTPError code)
   \<and> read_json Garbled = Inl JSONDecodeError
   \<and> (\<forall>e. read_json (server url) = Inl e \<longrightarrow> fetch server url nest = Inl e)
   \<and> (\<forall>kvs. server url = Body (JObj kvs) \<and> map_of kvs key = None \<and> key \<noteq> [] \<longrightarrow>
         fetch server url (Some key) = Inl (KeyError key))
   \<and> (\<forall>df. c \<notin> set (columns df) \<longrightarrow> decode_column c df = Inl (KeyError c))
   \<and> (\<forall>e. fetch server (tops_url valid) None = Inl e \<longrightarrow> quote_table server valid = Inl e)
   \<and> (\<forall>e. fetch server (last_url valid) None = Inl e \<longrightarrow> trade_table server valid = Inl e)
   \<and> (\<forall>e. fetch server (news_url count s) None = Inl e \<longrightarrow>
         news_table server to_datetime count s = Inl e)
   \<and> (\<forall>e. fetch server (financials_url s) (Some ''financials'') = Inl e \<longrightarrow>
         financials_table server s = Inl e)
   \<and> (\<forall>e. fetch server (earnings_url s) (Some ''earnings'') = Inl e \<longrightarrow>
         earnings_table server s = Inl e)
   \<and> (\<forall>e. fetch server (chart_url bucket s) None = Inl e \<longrightarrow>
         bars_table server bucket s = Inl e)"
proof -
  note loops =
    for_valid_securities_raises_through[OF news_frame_logged]
    for_valid_securities_raises_through[OF financials_frame_logged]
    for_valid_securities_raises_through[OF earnings_frame_logged]
    for_valid_securities_raises_through[OF bars_frame_logged]
  have tables: "\<forall>e. fetch server (tops_url valid) None = Inl e \<longrightarrow> quote_table server valid = Inl e"
    "\<forall>e. fetch server (last_url valid) None = Inl e \<longrightarrow> trade_table server valid = Inl e"
    "\<forall>e. fetch server (news_url count s) None = Inl e \<longrightarrow>
         news_table server to_datetime count s = Inl e"
    "\<forall>e. fetch server (financials_url s) (Some ''financials'') = Inl e \<longrightarrow>
         financials_table server s = Inl e"
    "\<forall>e. fetch server (earnings_url s) (Some ''earnings'') = Inl e \<longrightarrow>
         earnings_table server s = Inl e"
    "\<forall>e. fetch server (chart_url bucket s) None = Inl e \<longrightarrow> bars_table server bucket s = Inl e"
    by (simp_all add: quote_table_def trade_table_def news_table_def financials_table_def
        earnings_table_def bars_table_def and_then_def)
  have kinds: "\<forall>e. read_json (server url) = Inl e \<longrightarrow> fetch server url nest = Inl e"
    "\<forall>kvs. server url = Body (JObj kvs) \<and> map_of kvs key = None \<and> key \<noteq> [] \<longrightarrow>
         fetch server url (Some key) = Inl (KeyError key)"
    "\<forall>df. c \<notin> set (columns df) \<longrightarrow> decode_column c df = Inl (KeyError c)"
    by (simp_all add: fetch_failure missing_key missing_column)
  show ?thesis
    unfolding get_latest_news_loop get_financials_loop get_earnings_loop get_trade_bars_data_loop
    by (intro conjI quote_raises_through trade_raises_through loops tables kinds) simp_all
qed

lemma market_two_valid: "validated market [''AAPL'', ''IBM''] = Inr [''AAPL'', ''IBM'']"
  by code_simp

lemma market_financials_plan:
  "per_symbol financials_url (financials_table market) [''AAPL'', ''IBM'']
     = [(financials_url ''AAPL'', financials_table market ''AAPL'')]
       @ (financials_url ''IBM'', Inl (HTTPError 404)) # []
   \<and> (\<forall>p \<in> set [(financials_url ''AAPL'', financials_table market ''AAPL'')]. \<exists>df. snd p = Inr df)"
proof -
  have "financials_table market ''IBM'' = Inl (HTTPError 404)" by code_simp
  moreover have "\<exists>df. financials_table market ''AAPL'' = Inr df"
    by (simp add: financials_table_def fetch_def and_then_def market_financials_reply
        normalize_reply_def)
  ultimately show ?thesis by (simp add: per_symbol_def)
qed

theorem failures_propagate_witness:
  "get_financials market [''AAPL'', ''IBM''] start =
     (Inl (HTTPError 404),
      \<lparr>requests = [ref_data_url, financials_url ''AAPL'', financials_url ''IBM''], stdout = []\<rparr>)"
proof -
  from failures_propagate[where server = market and securities = "[''AAPL'', ''IBM'']"]
  have "raises_through market [''AAPL'', ''IBM''] (per_symbol financials_url (financials_table market))
       (get_financials market [''AAPL'', ''IBM''])" by blast
  then have "get_financials market [''AAPL'', ''IBM''] start =
      (Inl (HTTPError 404),
       \<lparr>requests = requests start @ ref_data_url
           # map fst [(financials_url ''AAPL'', financials_table market ''AAPL'')]
           @ [financials_url ''IBM''], stdout = stdout start\<rparr>)"
    unfolding raises_through_def
    using market_two_valid market_financials_plan by blast
  then show ?thesis by (simp add: start_def)
qed

end
